theory Spec2Isabelle
  imports Main "HOL-Library.Word"
begin

unbundle bit_operations_syntax

section \<open>JavaScript strings\<close>

text \<open>
  A JavaScript string is a sequence of 16-bit UTF-16 code units.  Source literals are
  ASCII; \<open>js\<close> embeds a HOL literal, one code unit per character.
\<close>

type_synonym jschar = "16 word"
type_synonym jsstring = "jschar list"

definition js :: "string \<Rightarrow> jsstring" where
  "js s = map of_char s"

text \<open>\<open>String.prototype.includes\<close>: does \<open>pat\<close> occur in \<open>s\<close> as a contiguous run?\<close>

fun starts_with :: "'a list \<Rightarrow> 'a list \<Rightarrow> bool" where
  "starts_with s [] = True"
| "starts_with [] (p # ps) = False"
| "starts_with (c # cs) (p # ps) = (c = p \<and> starts_with cs ps)"

fun str_includes :: "'a list \<Rightarrow> 'a list \<Rightarrow> bool" where
  "str_includes [] pat = starts_with [] pat"
| "str_includes (c # cs) pat = (starts_with (c # cs) pat \<or> str_includes cs pat)"

text \<open>
  \<open>String.prototype.split\<close> with a non-empty separator: the pieces between successive
  non-overlapping occurrences of the separator, scanning from the left.  \<open>cur\<close> holds the
  current piece, reversed.  (With an empty separator JavaScript splits into code units;
  the source never does that, and the model returns the whole string as one piece.)
\<close>

function split_from :: "'a list \<Rightarrow> 'a list \<Rightarrow> 'a list \<Rightarrow> 'a list list" where
  "split_from sep cur [] = [rev cur]"
| "split_from sep cur (c # cs) =
     (if sep \<noteq> [] \<and> starts_with (c # cs) sep
      then rev cur # split_from sep [] (drop (length sep) (c # cs))
      else split_from sep (c # cur) cs)"
  by pat_completeness auto
termination
  by (relation "measure (\<lambda>(sep, cur, s). length s)") (auto simp: neq_Nil_conv)

definition split :: "'a list \<Rightarrow> 'a list \<Rightarrow> 'a list list" where
  "split s sep = split_from sep [] s"

text \<open>
  \<open>String.prototype.trim\<close> strips WhiteSpace and LineTerminator code units from both
  ends: TAB, LF, VT, FF, CR, SP, NBSP, U+1680, U+2000..U+200A, U+2028, U+2029, U+202F,
  U+205F, U+3000 and U+FEFF.
\<close>

definition is_js_space :: "jschar \<Rightarrow> bool" where
  "is_js_space c \<longleftrightarrow>
     c \<in> set [0x09, 0x0A, 0x0B, 0x0C, 0x0D, 0x20, 0xA0, 0x1680,
               0x2000, 0x2001, 0x2002, 0x2003, 0x2004, 0x2005, 0x2006, 0x2007,
               0x2008, 0x2009, 0x200A, 0x2028, 0x2029, 0x202F, 0x205F, 0x3000, 0xFEFF]"

definition trim :: "jsstring \<Rightarrow> jsstring" where
  "trim s = rev (dropWhile is_js_space (rev (dropWhile is_js_space s)))"

text \<open>\<open>Array.prototype.join\<close> on an array of strings.\<close>

fun join :: "'a list list \<Rightarrow> 'a list \<Rightarrow> 'a list" where
  "join [] sep = []"
| "join [x] sep = x"
| "join (x # y # ys) sep = x @ sep @ join (y # ys) sep"

section \<open>helpers.ts\<close>

definition formatPostContent :: "jsstring \<Rightarrow> jsstring" where
  "formatPostContent content =
     (if str_includes content (js ''<p>'') \<or> str_includes content (js ''<h1>'')
         \<or> str_includes content (js ''<div>'')
      then content
      else join
             (map (\<lambda>paragraph. js ''<p>'' @ paragraph @ js ''</p>'')
               (filter (\<lambda>paragraph. length paragraph > 0)
                 (map (\<lambda>paragraph. trim paragraph)
                   (split content (js [CHR 0x0A, CHR 0x0A])))))
             (js [CHR 0x0A]))"

section \<open>Numbers and encodings\<close>

text \<open>
  \<open>Number.prototype.toString()\<close> on an integer value: decimal digits, with a minus sign
  for negative values.  (JavaScript numbers are doubles; identifiers, page numbers and
  counts are integers, and the model takes them as unbounded integers.)
\<close>

definition digit_char :: "nat \<Rightarrow> jschar" where
  "digit_char d = of_nat (48 + d mod 10)"

function decimal :: "nat \<Rightarrow> jsstring" where
  "decimal n = (if n < 10 then [digit_char n] else decimal (n div 10) @ [digit_char (n mod 10)])"
  by pat_completeness auto
termination
  by (relation "measure (\<lambda>n. n)") auto

declare decimal.simps [simp del]

definition number_toString :: "int \<Rightarrow> jsstring" where
  "number_toString i = (if i < 0 then js ''-'' @ decimal (nat (- i)) else decimal (nat i))"

text \<open>
  \<open>Buffer.from(s)\<close> encodes a string as UTF-8.  A surrogate pair is one code point of
  four bytes; a lone surrogate is replaced by U+FFFD (EF BF BD).
\<close>

fun utf8_units :: "nat list \<Rightarrow> nat list" where
  "utf8_units [] = []"
| "utf8_units (c # cs) =
     (if c < 0x80 then c # utf8_units cs
      else if c < 0x800 then (0xC0 + c div 64) # (0x80 + c mod 64) # utf8_units cs
      else if 0xD800 \<le> c \<and> c < 0xDC00 then
        (case cs of
           [] \<Rightarrow> [0xEF, 0xBF, 0xBD]
         | d # ds \<Rightarrow>
             if 0xDC00 \<le> d \<and> d < 0xE000 then
               (let cp = 0x10000 + (c - 0xD800) * 1024 + (d - 0xDC00)
                in (0xF0 + cp div 262144) # (0x80 + cp div 4096 mod 64)
                     # (0x80 + cp div 64 mod 64) # (0x80 + cp mod 64) # utf8_units ds)
             else 0xEF # 0xBF # 0xBD # utf8_units cs)
      else if 0xDC00 \<le> c \<and> c < 0xE000 then 0xEF # 0xBF # 0xBD # utf8_units cs
      else (0xE0 + c div 4096) # (0x80 + c div 64 mod 64) # (0x80 + c mod 64) # utf8_units cs)"

definition Buffer_from :: "jsstring \<Rightarrow> nat list" where
  "Buffer_from s = utf8_units (map unat s)"

text \<open>\<open>buffer.toString('base64')\<close>: the standard alphabet, padded with \<open>=\<close>.\<close>

definition base64_alphabet :: string where
  "base64_alphabet = ''ABCDEFGHIJKLMNOPQRSTUVWXYZabcdefghijklmnopqrstuvwxyz0123456789+/''"

definition b64 :: "nat \<Rightarrow> jschar" where
  "b64 n = of_char (base64_alphabet ! (n mod 64))"

fun toString_base64 :: "nat list \<Rightarrow> jsstring" where
  "toString_base64 [] = []"
| "toString_base64 [a] = [b64 (a div 4), b64 (a mod 4 * 16), 0x3D, 0x3D]"
| "toString_base64 [a, b] =
     [b64 (a div 4), b64 (a mod 4 * 16 + b div 16), b64 (b mod 16 * 4), 0x3D]"
| "toString_base64 (a # b # c # rest) =
     b64 (a div 4) # b64 (a mod 4 * 16 + b div 16) # b64 (b mod 16 * 4 + c div 64)
       # b64 (c mod 64) # toString_base64 rest"

text \<open>
  \<open>URLSearchParams.prototype.toString()\<close>: the \<open>application/x-www-form-urlencoded\<close>
  serialisation.  Letters, digits and \<open>* - . _\<close> stand for themselves, a space becomes
  \<open>+\<close>, every other byte of the UTF-8 encoding becomes \<open>%XX\<close>.
\<close>

definition hex_digit :: "nat \<Rightarrow> jschar" where
  "hex_digit n = of_char (''0123456789ABCDEF'' ! (n mod 16))"

definition form_byte :: "nat \<Rightarrow> jsstring" where
  "form_byte b =
     (if (0x30 \<le> b \<and> b \<le> 0x39) \<or> (0x41 \<le> b \<and> b \<le> 0x5A) \<or> (0x61 \<le> b \<and> b \<le> 0x7A)
         \<or> b = 0x2A \<or> b = 0x2D \<or> b = 0x2E \<or> b = 0x5F
      then [of_nat b]
      else if b = 0x20 then js ''+''
      else js ''%'' @ [hex_digit (b div 16), hex_digit (b mod 16)])"

definition form_encode :: "jsstring \<Rightarrow> jsstring" where
  "form_encode s = concat (map form_byte (Buffer_from s))"

type_synonym URLSearchParams = "(jsstring \<times> jsstring) list"

definition params_toString :: "URLSearchParams \<Rightarrow> jsstring" where
  "params_toString ps = join (map (\<lambda>(k, v). form_encode k @ js ''='' @ form_encode v) ps) (js ''&'')"

section \<open>JavaScript values and exceptions\<close>

text \<open>
  Request bodies, response bodies and result envelopes are JavaScript values.  An object
  is the list of its own properties, in insertion order; the property names the program
  reads are ASCII literals.  Numbers are integers, or \<open>NaN\<close>.
\<close>

datatype json =
    JUndefined
  | JNull
  | JBool bool
  | JNum int
  | JNaN
  | JStr jsstring
  | JArr "json list"
  | JObj "(string \<times> json) list"

record axios_response =
  error_status :: int
  error_statusText :: jsstring
  error_data :: json

text \<open>
  Everything the program throws or catches is an \<open>Error\<close> instance: its own
  \<open>new Error(message)\<close>, a \<open>TypeError\<close> of the runtime, or an error of the HTTP client
  (\<open>isAxiosError === true\<close>), which carries the response when the server sent one.
\<close>

datatype js_error =
    Error jsstring
  | TypeError jsstring
  | AxiosError jsstring "axios_response option"

fun message :: "js_error \<Rightarrow> jsstring" where
  "message (Error m) = m"
| "message (TypeError m) = m"
| "message (AxiosError m r) = m"

fun isAxiosError :: "js_error \<Rightarrow> bool" where
  "isAxiosError (AxiosError m r) = True"
| "isAxiosError _ = False"

fun truthy :: "json \<Rightarrow> bool" where
  "truthy JUndefined = False"
| "truthy JNull = False"
| "truthy (JBool b) = b"
| "truthy (JNum n) = (n \<noteq> 0)"
| "truthy JNaN = False"
| "truthy (JStr s) = (s \<noteq> [])"
| "truthy (JArr xs) = True"
| "truthy (JObj kvs) = True"

text \<open>A property that is read off a value that may be absent.\<close>

definition truthy_str :: "jsstring option \<Rightarrow> bool" where
  "truthy_str s = (case s of None \<Rightarrow> False | Some v \<Rightarrow> v \<noteq> [])"

definition truthy_num :: "int option \<Rightarrow> bool" where
  "truthy_num n = (case n of None \<Rightarrow> False | Some v \<Rightarrow> v \<noteq> 0)"

text \<open>
  \<open>field v k\<close> is \<open>v.k\<close> where \<open>v\<close> is not \<open>null\<close> or \<open>undefined\<close>: the own property of an
  object, \<open>undefined\<close> otherwise.  (The model reads own properties only: what a string or an array inherits
  from its prototype is left out, \<open>length\<close> apart, which has its own function below.)  \<open>get_prop v k\<close> is the property access
  itself, which throws a \<open>TypeError\<close> on \<open>null\<close> and \<open>undefined\<close>.
\<close>

fun field :: "json \<Rightarrow> string \<Rightarrow> json" where
  "field (JObj kvs) k = (case map_of kvs k of None \<Rightarrow> JUndefined | Some v \<Rightarrow> v)"
| "field _ k = JUndefined"

fun get_prop :: "json \<Rightarrow> string \<Rightarrow> js_error + json" where
  "get_prop JUndefined k =
     Inl (TypeError (js ''Cannot read properties of undefined (reading '' @ js k @ js '')''))"
| "get_prop JNull k =
     Inl (TypeError (js ''Cannot read properties of null (reading '' @ js k @ js '')''))"
| "get_prop v k = Inr (field v k)"

text \<open>\<open>v?.k\<close>\<close>

fun opt_prop :: "json \<Rightarrow> string \<Rightarrow> json" where
  "opt_prop JUndefined k = JUndefined"
| "opt_prop JNull k = JUndefined"
| "opt_prop v k = field v k"

text \<open>Sequencing of computations that may throw, and \<open>v.k1.k2\<close>.\<close>

definition and_then :: "js_error + 'a \<Rightarrow> ('a \<Rightarrow> js_error + 'b) \<Rightarrow> js_error + 'b" where
  "and_then r f = (case r of Inl e \<Rightarrow> Inl e | Inr v \<Rightarrow> f v)"

fun path :: "json \<Rightarrow> string list \<Rightarrow> js_error + json" where
  "path v [] = Inr v"
| "path v (k # ks) = and_then (get_prop v k) (\<lambda>u. path u ks)"

text \<open>\<open>a || b\<close>\<close>

definition js_or :: "js_error + json \<Rightarrow> js_error + json \<Rightarrow> js_error + json" where
  "js_or a b = and_then a (\<lambda>v. if truthy v then Inr v else b)"

text \<open>
  An object literal \<open>{ k1: e1, k2: e2, ... }\<close>: the initialisers are evaluated in
  order, and the first one that throws aborts the literal.
\<close>

fun initialisers :: "(string \<times> (js_error + json)) list \<Rightarrow> js_error + (string \<times> json) list" where
  "initialisers [] = Inr []"
| "initialisers ((k, e) # rest) =
     and_then e (\<lambda>v. and_then (initialisers rest) (\<lambda>kvs. Inr ((k, v) # kvs)))"

definition object :: "(string \<times> (js_error + json)) list \<Rightarrow> js_error + json" where
  "object es = and_then (initialisers es) (\<lambda>kvs. Inr (JObj kvs))"

text \<open>\<open>xs.map(f)\<close>: a method call on a value that is not an array throws.\<close>

fun all_of :: "(js_error + 'a) list \<Rightarrow> js_error + 'a list" where
  "all_of [] = Inr []"
| "all_of (r # rs) = and_then r (\<lambda>y. and_then (all_of rs) (\<lambda>ys. Inr (y # ys)))"

definition map_all :: "('a \<Rightarrow> js_error + 'b) \<Rightarrow> 'a list \<Rightarrow> js_error + 'b list" where
  "map_all f xs = all_of (map f xs)"

fun array_map :: "json \<Rightarrow> (json \<Rightarrow> js_error + json) \<Rightarrow> js_error + json" where
  "array_map (JArr xs) f = and_then (map_all f xs) (\<lambda>ys. Inr (JArr ys))"
| "array_map JUndefined f =
     Inl (TypeError (js ''Cannot read properties of undefined (reading map)''))"
| "array_map JNull f =
     Inl (TypeError (js ''Cannot read properties of null (reading map)''))"
| "array_map v f = Inl (TypeError (js ''response.data.map is not a function''))"

text \<open>
  \<open>String(v)\<close>.  An object prints as \<open>[object Object]\<close> unless an own \<open>toString\<close> or
  \<open>valueOf\<close> property (which in parsed JSON is never a function) hides the inherited
  method, in which case the conversion throws.
\<close>

fun String_of :: "json \<Rightarrow> js_error + jsstring" where
  "String_of JUndefined = Inr (js ''undefined'')"
| "String_of JNull = Inr (js ''null'')"
| "String_of (JBool b) = Inr (if b then js ''true'' else js ''false'')"
| "String_of (JNum n) = Inr (number_toString n)"
| "String_of JNaN = Inr (js ''NaN'')"
| "String_of (JStr s) = Inr s"
| "String_of (JArr xs) =
     and_then
       (all_of (map (\<lambda>x. if x = JUndefined \<or> x = JNull then Inr [] else String_of x) xs))
       (\<lambda>ss. Inr (join ss (js '','')))"
| "String_of (JObj kvs) =
     (if map_of kvs ''toString'' = None then Inr (js ''[object Object]'')
      else if map_of kvs ''valueOf'' = None then
        Inl (TypeError (js ''Cannot convert object to primitive value''))
      else Inl (TypeError (js ''Cannot convert object to primitive value'')))"

text \<open>
  \<open>parseInt(s)\<close>: leading white space, an optional sign, then decimal digits, or
  hexadecimal digits after \<open>0x\<close>; \<open>NaN\<close> when no digit follows.
\<close>

definition digit_value :: "jschar \<Rightarrow> nat option" where
  "digit_value c =
     (let n = unat c in
      if 0x30 \<le> n \<and> n \<le> 0x39 then Some (n - 0x30)
      else if 0x41 \<le> n \<and> n \<le> 0x5A then Some (n - 0x41 + 10)
      else if 0x61 \<le> n \<and> n \<le> 0x7A then Some (n - 0x61 + 10)
      else None)"

definition is_digit :: "nat \<Rightarrow> jschar \<Rightarrow> bool" where
  "is_digit radix c = (case digit_value c of None \<Rightarrow> False | Some d \<Rightarrow> d < radix)"

definition digits_value :: "nat \<Rightarrow> jsstring \<Rightarrow> nat" where
  "digits_value radix ds = foldl (\<lambda>acc c. acc * radix + (case digit_value c of None \<Rightarrow> 0 | Some d \<Rightarrow> d)) 0 ds"

definition parse_digits :: "nat \<Rightarrow> jsstring \<Rightarrow> int option" where
  "parse_digits radix s =
     (let ds = takeWhile (is_digit radix) s
      in if ds = [] then None else Some (int (digits_value radix ds)))"

definition parseInt :: "jsstring \<Rightarrow> json" where
  "parseInt s =
     (let t = dropWhile is_js_space s;
          neg = starts_with t (js ''-'');
          u = (if starts_with t (js ''-'') \<or> starts_with t (js ''+'') then drop 1 t else t);
          r = (if starts_with u (js ''0x'') \<or> starts_with u (js ''0X'')
               then parse_digits 16 (drop 2 u) else parse_digits 10 u)
      in case r of None \<Rightarrow> JNaN | Some n \<Rightarrow> JNum (if neg then - n else n))"

section \<open>wordpress/api.ts: the session store\<close>

record WordPressConfig =
  siteUrl :: jsstring
  username :: jsstring
  password :: "jsstring option"
  appPassword :: "jsstring option"
  isAuthenticated :: bool

text \<open>
  \<open>Partial<WordPressConfig>\<close>: every key may be missing (\<open>None\<close>).  The two optional
  secrets may also be present with the value \<open>undefined\<close> (\<open>Some None\<close>), as they are
  when the authenticate tool passes on a secret the caller did not give.
\<close>

record PartialConfig =
  new_siteUrl :: "jsstring option"
  new_username :: "jsstring option"
  new_password :: "jsstring option option"
  new_appPassword :: "jsstring option option"
  new_isAuthenticated :: "bool option"

text \<open>
  An HTTP request as the program hands it to the HTTP client: method, URL, the request
  configuration object (headers, time-out, response type) and the body.
\<close>

datatype http_method = GET | POST | PUT | DELETE

datatype request = Request http_method jsstring json json

record response =
  data :: json
  headers :: "(string \<times> jsstring) list"

text \<open>
  The state of the process is the module variable \<open>wpConfig\<close> and the requests issued so
  far.  Writes to the console are not part of the state.
\<close>

record world =
  wpConfig :: WordPressConfig
  requests :: "request list"

text \<open>
  What lies outside the process: the remote servers, which answer a request (given the
  requests that came before it) with a response or make the client throw; the
  environment variable \<open>TINIFY_API_KEY\<close>; the next value of \<open>Math.random()\<close>, given by the
  digits (each below 36) that \<open>toString(36)\<close> prints after \<open>0.\<close>; and the compression
  service behind the \<open>tinify\<close> client, which turns an image into an optimised one or
  throws.
\<close>

record env =
  server :: "request list \<Rightarrow> request \<Rightarrow> js_error + response"
  TINIFY_API_KEY :: "jsstring option"
  Math_random :: "nat list"
  tinify :: "json \<Rightarrow> bool \<Rightarrow> js_error + json"

definition initial_config :: WordPressConfig where
  "initial_config =
     \<lparr>siteUrl = [], username = [], password = None, appPassword = None,
      isAuthenticated = False\<rparr>"

definition initial_world :: world where
  "initial_world = \<lparr>wpConfig = initial_config, requests = []\<rparr>"

subsection \<open>Asynchronous functions\<close>

text \<open>
  An \<open>async\<close> function runs on the state and either returns a value or throws.
  \<open>await m f\<close> is \<open>const x = await m; f x\<close>; \<open>try_catch m h\<close> is
  \<open>try { m } catch (error) { h error }\<close>.
\<close>

type_synonym 'a async = "world \<Rightarrow> (js_error + 'a) \<times> world"

definition ret :: "'a \<Rightarrow> 'a async" where
  "ret x = (\<lambda>w. (Inr x, w))"

definition throw :: "js_error \<Rightarrow> 'a async" where
  "throw e = (\<lambda>w. (Inl e, w))"

definition lift :: "js_error + 'a \<Rightarrow> 'a async" where
  "lift r = (\<lambda>w. (r, w))"

definition await :: "'a async \<Rightarrow> ('a \<Rightarrow> 'b async) \<Rightarrow> 'b async" where
  "await m f = (\<lambda>w. case m w of (Inl e, w') \<Rightarrow> (Inl e, w') | (Inr x, w') \<Rightarrow> f x w')"

definition try_catch :: "'a async \<Rightarrow> (js_error \<Rightarrow> 'a async) \<Rightarrow> 'a async" where
  "try_catch m h = (\<lambda>w. case m w of (Inl e, w') \<Rightarrow> h e w' | (Inr x, w') \<Rightarrow> (Inr x, w'))"

definition read_config :: "WordPressConfig async" where
  "read_config = (\<lambda>w. (Inr (wpConfig w), w))"

definition set_isAuthenticated :: "bool \<Rightarrow> unit async" where
  "set_isAuthenticated b = (\<lambda>w. (Inr (), w\<lparr>wpConfig := (wpConfig w)\<lparr>isAuthenticated := b\<rparr>\<rparr>))"

text \<open>The HTTP client: the request is issued, and the server's answer comes back.\<close>

definition axios :: "env \<Rightarrow> request \<Rightarrow> response async" where
  "axios E r = (\<lambda>w. (server E (requests w) r, w\<lparr>requests := requests w @ [r]\<rparr>))"

definition axios_get :: "env \<Rightarrow> jsstring \<Rightarrow> json \<Rightarrow> response async" where
  "axios_get E url config = axios E (Request GET url config JUndefined)"

definition axios_delete :: "env \<Rightarrow> jsstring \<Rightarrow> json \<Rightarrow> response async" where
  "axios_delete E url config = axios E (Request DELETE url config JUndefined)"

definition axios_post :: "env \<Rightarrow> jsstring \<Rightarrow> json \<Rightarrow> json \<Rightarrow> response async" where
  "axios_post E url body config = axios E (Request POST url config body)"

definition axios_put :: "env \<Rightarrow> jsstring \<Rightarrow> json \<Rightarrow> json \<Rightarrow> response async" where
  "axios_put E url body config = axios E (Request PUT url config body)"

text \<open>The two request configurations the program uses.\<close>

definition auth_headers :: "jsstring \<Rightarrow> json" where
  "auth_headers authHeader = JObj [(''headers'', JObj [(''Authorization'', JStr authHeader)])]"

definition json_headers :: "jsstring \<Rightarrow> json" where
  "json_headers authHeader =
     JObj [(''headers'', JObj [(''Authorization'', JStr authHeader),
                               (''Content-Type'', JStr (js ''application/json''))])]"

subsection \<open>Configuration and the authorisation header\<close>

definition setWordPressConfig :: "PartialConfig \<Rightarrow> unit async" where
  "setWordPressConfig config =
     (\<lambda>w. (Inr (),
        w\<lparr>wpConfig :=
            \<lparr>siteUrl = (case new_siteUrl config of None \<Rightarrow> siteUrl (wpConfig w) | Some v \<Rightarrow> v),
             username = (case new_username config of None \<Rightarrow> username (wpConfig w) | Some v \<Rightarrow> v),
             password = (case new_password config of None \<Rightarrow> password (wpConfig w) | Some v \<Rightarrow> v),
             appPassword =
               (case new_appPassword config of None \<Rightarrow> appPassword (wpConfig w) | Some v \<Rightarrow> v),
             isAuthenticated =
               (case new_isAuthenticated config of
                  None \<Rightarrow> isAuthenticated (wpConfig w) | Some v \<Rightarrow> v)\<rparr>\<rparr>))"

definition getWordPressConfig :: "WordPressConfig async" where
  "getWordPressConfig = (\<lambda>w. (Inr (wpConfig w), w))"

definition or_unknown :: "jsstring \<Rightarrow> jsstring" where
  "or_unknown m = (if m \<noteq> [] then m else js ''Unknown error'')"

text \<open>A string that may be \<open>undefined\<close>, interpolated into a template literal.\<close>

definition interpolate :: "jsstring option \<Rightarrow> jsstring" where
  "interpolate s = (case s of None \<Rightarrow> js ''undefined'' | Some v \<Rightarrow> v)"

definition auth_header_of :: "WordPressConfig \<Rightarrow> js_error + jsstring" where
  "auth_header_of cfg =
     (case
        (if truthy_str (appPassword cfg) then
           Inr (js ''Basic '' @ toString_base64
                  (Buffer_from (username cfg @ js '':'' @ interpolate (appPassword cfg))))
         else if \<not> truthy_str (password cfg) then
           Inl (Error (js ''No password or app password provided for WordPress authentication''))
         else
           Inr (js ''Basic '' @ toString_base64
                  (Buffer_from (username cfg @ js '':'' @ interpolate (password cfg)))))
      of
        Inl error \<Rightarrow>
          Inl (Error (js ''Failed to create authentication header: '' @ or_unknown (message error)))
      | Inr header \<Rightarrow> Inr header)"

definition getAuthHeader :: "jsstring async" where
  "getAuthHeader = await read_config (\<lambda>cfg. lift (auth_header_of cfg))"

definition formatErrorResponse :: "js_error \<Rightarrow> json" where
  "formatErrorResponse error =
     (if isAxiosError error then
        (case error of
           AxiosError m r \<Rightarrow>
             JObj [(''status'', case r of None \<Rightarrow> JUndefined | Some x \<Rightarrow> JNum (error_status x)),
                   (''statusText'', case r of None \<Rightarrow> JUndefined | Some x \<Rightarrow> JStr (error_statusText x)),
                   (''data'', case r of None \<Rightarrow> JUndefined | Some x \<Rightarrow> error_data x),
                   (''message'', JStr m)]
         | _ \<Rightarrow> JStr (or_unknown (message error)))
      else JStr (or_unknown (message error)))"

subsection \<open>The probes\<close>

definition testAuthentication :: "env \<Rightarrow> json async" where
  "testAuthentication E =
     try_catch
       (await getAuthHeader (\<lambda>authHeader.
        await read_config (\<lambda>cfg.
        await (axios_get E (siteUrl cfg @ js ''/wp-json/wp/v2/users/me'') (auth_headers authHeader))
          (\<lambda>response.
        await (lift (get_prop (data response) ''roles'')) (\<lambda>r.
        await (ret (if truthy r then r else JArr [JStr (js ''contributor'')])) (\<lambda>roles.
        await (set_isAuthenticated True) (\<lambda>_.
        lift (object
          [(''success'', Inr (JBool True)),
           (''userInfo'', object
              [(''id'', get_prop (data response) ''id''),
               (''name'', js_or (get_prop (data response) ''name'')
                           (js_or (get_prop (data response) ''slug'') (Inr (JStr (js ''Unknown''))))),
               (''roles'',
                  case roles of
                    JArr xs \<Rightarrow> Inr roles
                  | _ \<Rightarrow> and_then (String_of roles) (\<lambda>s. Inr (JArr [JStr s])))])]))))))))
       (\<lambda>error.
          await (set_isAuthenticated False) (\<lambda>_.
          ret (JObj [(''success'', JBool False), (''error'', JStr (message error))])))"

definition testSiteConnection :: "env \<Rightarrow> jsstring \<Rightarrow> bool async" where
  "testSiteConnection E url =
     try_catch
       (await (axios_get E (url @ js ''/wp-json/'') (JObj [(''timeout'', JNum 5000)]))
          (\<lambda>response.
             case opt_prop (data response) ''namespaces'' of
               JUndefined \<Rightarrow> ret False
             | JNull \<Rightarrow> ret False
             | JArr xs \<Rightarrow> ret (JStr (js ''wp/v2'') \<in> set xs)
             | JStr s \<Rightarrow> ret (str_includes s (js ''wp/v2''))
             | _ \<Rightarrow> throw (TypeError (js ''response.data?.namespaces?.includes is not a function''))))
       (\<lambda>error. ret False)"

section \<open>wordpress/api.ts: resource operations\<close>

text \<open>
  Every operation opens with the same two checks and closes with the same handler,
  which turns whatever was thrown into a failure envelope.
\<close>

definition require_session :: "unit async" where
  "require_session =
     await read_config (\<lambda>cfg.
       if siteUrl cfg = [] then throw (Error (js ''WordPress site URL not configured''))
       else if \<not> isAuthenticated cfg then throw (Error (js ''Not authenticated''))
       else ret ())"

definition failure :: "js_error \<Rightarrow> json" where
  "failure error = JObj [(''success'', JBool False), (''error'', formatErrorResponse error)]"

text \<open>A parameter with a default value, and arrays of numbers as values.\<close>

definition dflt :: "'a \<Rightarrow> 'a option \<Rightarrow> 'a" where
  "dflt d x = (case x of None \<Rightarrow> d | Some v \<Rightarrow> v)"

definition numbers :: "int list \<Rightarrow> json" where
  "numbers xs = JArr (map JNum xs)"

definition opt_json :: "('a \<Rightarrow> json) \<Rightarrow> 'a option \<Rightarrow> json" where
  "opt_json f x = (case x of None \<Rightarrow> JUndefined | Some v \<Rightarrow> f v)"

text \<open>\<open>${v}\<close> for a value that came out of a response.\<close>

definition interpolate_json :: "json \<Rightarrow> jsstring async" where
  "interpolate_json v = lift (String_of v)"

subsection \<open>Posts\<close>

text \<open>The post summary that \<open>createPost\<close> and \<open>updatePost\<close> return.\<close>

definition post_of :: "json \<Rightarrow> js_error + json" where
  "post_of d =
     object [(''id'', get_prop d ''id''),
             (''title'', path d [''title'', ''rendered'']),
             (''link'', get_prop d ''link''),
             (''status'', get_prop d ''status'')]"

definition createPost ::
  "env \<Rightarrow> jsstring \<Rightarrow> jsstring \<Rightarrow> jsstring option \<Rightarrow> jsstring option \<Rightarrow> int list option
     \<Rightarrow> int list option \<Rightarrow> json async" where
  "createPost E title content status excerpt categories tags =
     try_catch
       (await require_session (\<lambda>_.
        await getAuthHeader (\<lambda>authHeader.
        await read_config (\<lambda>cfg.
        await (axios_post E (siteUrl cfg @ js ''/wp-json/wp/v2/posts'')
                 (JObj [(''title'', JStr title), (''content'', JStr content),
                        (''status'', JStr (dflt (js ''draft'') status)),
                        (''excerpt'', JStr (dflt [] excerpt)),
                        (''categories'', numbers (dflt [] categories)),
                        (''tags'', numbers (dflt [] tags))])
                 (json_headers authHeader)) (\<lambda>response.
        lift (object [(''success'', Inr (JBool True)), (''post'', post_of (data response))]))))))
       (\<lambda>error. ret (failure error))"

definition getCategories :: "env \<Rightarrow> json async" where
  "getCategories E =
     try_catch
       (await require_session (\<lambda>_.
        await getAuthHeader (\<lambda>authHeader.
        await read_config (\<lambda>cfg.
        await (axios_get E (siteUrl cfg @ js ''/wp-json/wp/v2/categories?per_page=100'')
                 (auth_headers authHeader)) (\<lambda>response.
        lift (object
          [(''success'', Inr (JBool True)),
           (''categories'', array_map (data response) (\<lambda>category.
              object [(''id'', get_prop category ''id''),
                      (''name'', get_prop category ''name''),
                      (''slug'', get_prop category ''slug''),
                      (''count'', get_prop category ''count'')]))]))))))
       (\<lambda>error. ret (failure error))"

definition getTags :: "env \<Rightarrow> json async" where
  "getTags E =
     try_catch
       (await require_session (\<lambda>_.
        await getAuthHeader (\<lambda>authHeader.
        await read_config (\<lambda>cfg.
        await (axios_get E (siteUrl cfg @ js ''/wp-json/wp/v2/tags?per_page=100'')
                 (auth_headers authHeader)) (\<lambda>response.
        ret (JObj [(''success'', JBool True), (''tags'', data response)]))))))
       (\<lambda>error. ret (failure error))"

definition updatePost :: "env \<Rightarrow> int \<Rightarrow> json \<Rightarrow> json async" where
  "updatePost E postId updates =
     try_catch
       (await require_session (\<lambda>_.
        await getAuthHeader (\<lambda>authHeader.
        await read_config (\<lambda>cfg.
        await (axios_put E (siteUrl cfg @ js ''/wp-json/wp/v2/posts/'' @ number_toString postId)
                 updates (json_headers authHeader)) (\<lambda>response.
        lift (object [(''success'', Inr (JBool True)), (''post'', post_of (data response))]))))))
       (\<lambda>error. ret (failure error))"

text \<open>The answer to a delete request, as the three delete operations report it.\<close>

definition deleted_of :: "json \<Rightarrow> js_error + json" where
  "deleted_of d =
     object [(''success'', Inr (JBool True)),
             (''deleted'', js_or (get_prop d ''deleted'') (Inr (JBool False))),
             (''previous'', get_prop d ''previous'')]"

definition force_query :: "bool option \<Rightarrow> jsstring" where
  "force_query force = (if dflt False force then js ''?force=true'' else [])"

definition deletePost :: "env \<Rightarrow> int \<Rightarrow> bool option \<Rightarrow> json async" where
  "deletePost E postId force =
     try_catch
       (await require_session (\<lambda>_.
        await getAuthHeader (\<lambda>authHeader.
        await read_config (\<lambda>cfg.
        await (axios_delete E
                 (siteUrl cfg @ js ''/wp-json/wp/v2/posts/'' @ number_toString postId
                    @ force_query force)
                 (auth_headers authHeader)) (\<lambda>response.
        lift (deleted_of (data response)))))))
       (\<lambda>error. ret (failure error))"

definition getPost :: "env \<Rightarrow> int \<Rightarrow> bool option \<Rightarrow> json async" where
  "getPost E postId includeRevisions =
     try_catch
       (await require_session (\<lambda>_.
        await getAuthHeader (\<lambda>authHeader.
        await read_config (\<lambda>cfg.
        await (axios_get E (siteUrl cfg @ js ''/wp-json/wp/v2/posts/'' @ number_toString postId)
                 (auth_headers authHeader)) (\<lambda>response.
        await (if dflt False includeRevisions then
                 try_catch
                   (await (axios_get E
                             (siteUrl cfg @ js ''/wp-json/wp/v2/posts/'' @ number_toString postId
                                @ js ''/revisions'')
                             (auth_headers authHeader))
                      (\<lambda>revisionsResponse. ret (data revisionsResponse)))
                   (\<lambda>revError. ret (JArr []))
               else ret (JArr [])) (\<lambda>revisions.
        lift (object
          [(''success'', Inr (JBool True)),
           (''post'', object
              [(''id'', get_prop (data response) ''id''),
               (''title'', path (data response) [''title'', ''rendered'']),
               (''content'', path (data response) [''content'', ''rendered'']),
               (''excerpt'', path (data response) [''excerpt'', ''rendered'']),
               (''status'', get_prop (data response) ''status''),
               (''link'', get_prop (data response) ''link''),
               (''date'', get_prop (data response) ''date''),
               (''modified'', get_prop (data response) ''modified''),
               (''categories'', get_prop (data response) ''categories''),
               (''tags'', get_prop (data response) ''tags''),
               (''author'', get_prop (data response) ''author'')]),
           (''revisions'',
              Inr (if dflt False includeRevisions then revisions else JUndefined))])))))))
       (\<lambda>error. ret (failure error))"

text \<open>The fields of an options record carry the record's initials.\<close>

record ListPostsOptions =
  lpo_page :: "int option"
  lpo_perPage :: "int option"
  lpo_status :: "jsstring option"
  lpo_author :: "int option"
  lpo_categories :: "int list option"
  lpo_tags :: "int list option"
  lpo_search :: "jsstring option"
  lpo_orderBy :: "jsstring option"
  lpo_order :: "jsstring option"

text \<open>
  \<open>if (x) params.append(k, x)\<close> for a string, for a number (\<open>x.toString()\<close>) and for an
  array of numbers (\<open>if (x?.length) params.append(k, x.join(','))\<close>).
\<close>

definition append_str :: "string \<Rightarrow> jsstring option \<Rightarrow> URLSearchParams \<Rightarrow> URLSearchParams" where
  "append_str k x params = (if truthy_str x then params @ [(js k, interpolate x)] else params)"

definition append_num :: "string \<Rightarrow> int option \<Rightarrow> URLSearchParams \<Rightarrow> URLSearchParams" where
  "append_num k x params =
     (case x of None \<Rightarrow> params
      | Some n \<Rightarrow> if n \<noteq> 0 then params @ [(js k, number_toString n)] else params)"

definition append_nums :: "string \<Rightarrow> int list option \<Rightarrow> URLSearchParams \<Rightarrow> URLSearchParams" where
  "append_nums k x params =
     (case x of None \<Rightarrow> params
      | Some ns \<Rightarrow>
          if ns \<noteq> [] then params @ [(js k, join (map number_toString ns) (js '',''))]
          else params)"

text \<open>\<open>parseInt(response.headers[k] || d)\<close>\<close>

definition header_int :: "response \<Rightarrow> string \<Rightarrow> string \<Rightarrow> json" where
  "header_int r k d =
     parseInt (case map_of (headers r) k of
                 None \<Rightarrow> js d
               | Some v \<Rightarrow> if v \<noteq> [] then v else js d)"

definition listPosts :: "env \<Rightarrow> ListPostsOptions \<Rightarrow> json async" where
  "listPosts E options =
     try_catch
       (await require_session (\<lambda>_.
        await getAuthHeader (\<lambda>authHeader.
        await (ret (append_str ''order'' (lpo_order options)
                   (append_str ''orderby'' (lpo_orderBy options)
                   (append_str ''search'' (lpo_search options)
                   (append_nums ''tags'' (lpo_tags options)
                   (append_nums ''categories'' (lpo_categories options)
                   (append_num ''author'' (lpo_author options)
                   (append_str ''status'' (lpo_status options)
                   (append_num ''per_page'' (lpo_perPage options)
                   (append_num ''page'' (lpo_page options) [])))))))))) (\<lambda>params.
        await read_config (\<lambda>cfg.
        await (axios_get E (siteUrl cfg @ js ''/wp-json/wp/v2/posts?'' @ params_toString params)
                 (auth_headers authHeader)) (\<lambda>response.
        lift (object
          [(''success'', Inr (JBool True)),
           (''posts'', array_map (data response) (\<lambda>post.
              object [(''id'', get_prop post ''id''),
                      (''title'', path post [''title'', ''rendered'']),
                      (''excerpt'', path post [''excerpt'', ''rendered'']),
                      (''status'', get_prop post ''status''),
                      (''link'', get_prop post ''link''),
                      (''date'', get_prop post ''date''),
                      (''modified'', get_prop post ''modified''),
                      (''categories'', get_prop post ''categories''),
                      (''tags'', get_prop post ''tags''),
                      (''author'', get_prop post ''author'')])),
           (''totalPages'', Inr (header_int response ''x-wp-totalpages'' ''1'')),
           (''totalPosts'', Inr (header_int response ''x-wp-total'' ''0''))])))))))
       (\<lambda>error. ret (failure error))"

subsection \<open>Categories, tags and taxonomies\<close>

definition createCategory :: "env \<Rightarrow> json \<Rightarrow> json async" where
  "createCategory E data' =
     try_catch
       (await require_session (\<lambda>_.
        await getAuthHeader (\<lambda>authHeader.
        await read_config (\<lambda>cfg.
        await (axios_post E (siteUrl cfg @ js ''/wp-json/wp/v2/categories'') data'
                 (json_headers authHeader)) (\<lambda>response.
        ret (JObj [(''success'', JBool True), (''category'', data response)]))))))
       (\<lambda>error. ret (failure error))"

definition createTag :: "env \<Rightarrow> json \<Rightarrow> json async" where
  "createTag E data' =
     try_catch
       (await require_session (\<lambda>_.
        await getAuthHeader (\<lambda>authHeader.
        await read_config (\<lambda>cfg.
        await (axios_post E (siteUrl cfg @ js ''/wp-json/wp/v2/tags'') data'
                 (json_headers authHeader)) (\<lambda>response.
        ret (JObj [(''success'', JBool True), (''tag'', data response)]))))))
       (\<lambda>error. ret (failure error))"

definition updateCategory :: "env \<Rightarrow> int \<Rightarrow> json \<Rightarrow> json async" where
  "updateCategory E categoryId updates =
     try_catch
       (await require_session (\<lambda>_.
        await getAuthHeader (\<lambda>authHeader.
        await read_config (\<lambda>cfg.
        await (axios_put E
                 (siteUrl cfg @ js ''/wp-json/wp/v2/categories/'' @ number_toString categoryId)
                 updates (json_headers authHeader)) (\<lambda>response.
        ret (JObj [(''success'', JBool True), (''category'', data response)]))))))
       (\<lambda>error. ret (failure error))"

definition updateTag :: "env \<Rightarrow> int \<Rightarrow> json \<Rightarrow> json async" where
  "updateTag E tagId updates =
     try_catch
       (await require_session (\<lambda>_.
        await getAuthHeader (\<lambda>authHeader.
        await read_config (\<lambda>cfg.
        await (axios_put E (siteUrl cfg @ js ''/wp-json/wp/v2/tags/'' @ number_toString tagId)
                 updates (json_headers authHeader)) (\<lambda>response.
        ret (JObj [(''success'', JBool True), (''tag'', data response)]))))))
       (\<lambda>error. ret (failure error))"

definition deleteCategory :: "env \<Rightarrow> int \<Rightarrow> bool option \<Rightarrow> json async" where
  "deleteCategory E categoryId force =
     try_catch
       (await require_session (\<lambda>_.
        await getAuthHeader (\<lambda>authHeader.
        await read_config (\<lambda>cfg.
        await (axios_delete E
                 (siteUrl cfg @ js ''/wp-json/wp/v2/categories/'' @ number_toString categoryId
                    @ force_query force)
                 (auth_headers authHeader)) (\<lambda>response.
        lift (deleted_of (data response)))))))
       (\<lambda>error. ret (failure error))"

definition deleteTag :: "env \<Rightarrow> int \<Rightarrow> bool option \<Rightarrow> json async" where
  "deleteTag E tagId force =
     try_catch
       (await require_session (\<lambda>_.
        await getAuthHeader (\<lambda>authHeader.
        await read_config (\<lambda>cfg.
        await (axios_delete E
                 (siteUrl cfg @ js ''/wp-json/wp/v2/tags/'' @ number_toString tagId
                    @ force_query force)
                 (auth_headers authHeader)) (\<lambda>response.
        lift (deleted_of (data response)))))))
       (\<lambda>error. ret (failure error))"

text \<open>
  What \<open>for (const x of v)\<close> and \<open>[...v]\<close> run through: the elements of an array, the
  characters of a string; any other value is not iterable.
\<close>

fun iterate :: "json \<Rightarrow> js_error + json list" where
  "iterate (JArr xs) = Inr xs"
| "iterate (JStr s) = Inr (map (\<lambda>c. JStr [c]) s)"
| "iterate v = Inl (TypeError (js ''object is not iterable''))"

text \<open>
  \<open>post.categories.filter(id => id !== sourceCategoryId)\<close>, then the target is pushed
  unless \<open>includes\<close> finds it.
\<close>

fun retarget :: "json \<Rightarrow> int \<Rightarrow> int \<Rightarrow> js_error + json" where
  "retarget (JArr ids) sourceCategoryId targetCategoryId =
     (let currentCategories = filter (\<lambda>id. id \<noteq> JNum sourceCategoryId) ids
      in Inr (JArr (if JNum targetCategoryId \<in> set currentCategories then currentCategories
                    else currentCategories @ [JNum targetCategoryId])))"
| "retarget JUndefined s t =
     Inl (TypeError (js ''Cannot read properties of undefined (reading filter)''))"
| "retarget JNull s t =
     Inl (TypeError (js ''Cannot read properties of null (reading filter)''))"
| "retarget v s t = Inl (TypeError (js ''post.categories.filter is not a function''))"

text \<open>The loop of \<open>mergeCategories\<close> over the posts of the source category.\<close>

fun merge_posts ::
  "env \<Rightarrow> jsstring \<Rightarrow> int \<Rightarrow> int \<Rightarrow> json list \<Rightarrow> int \<Rightarrow> int async" where
  "merge_posts E authHeader sourceCategoryId targetCategoryId [] mergedCount = ret mergedCount"
| "merge_posts E authHeader sourceCategoryId targetCategoryId (post # rest) mergedCount =
     await (lift (get_prop post ''categories'')) (\<lambda>cats.
     await (lift (retarget cats sourceCategoryId targetCategoryId)) (\<lambda>currentCategories.
     await read_config (\<lambda>cfg.
     await (lift (get_prop post ''id'')) (\<lambda>post_id.
     await (interpolate_json post_id) (\<lambda>id_text.
     await (axios_put E (siteUrl cfg @ js ''/wp-json/wp/v2/posts/'' @ id_text)
              (JObj [(''categories'', currentCategories)]) (json_headers authHeader)) (\<lambda>_.
     merge_posts E authHeader sourceCategoryId targetCategoryId rest (mergedCount + 1)))))))"

definition mergeCategories :: "env \<Rightarrow> int \<Rightarrow> int \<Rightarrow> bool option \<Rightarrow> json async" where
  "mergeCategories E sourceCategoryId targetCategoryId deleteSource =
     try_catch
       (await require_session (\<lambda>_.
        await getAuthHeader (\<lambda>authHeader.
        await read_config (\<lambda>cfg.
        await (axios_get E
                 (siteUrl cfg @ js ''/wp-json/wp/v2/posts?categories=''
                    @ number_toString sourceCategoryId @ js ''&per_page=100'')
                 (auth_headers authHeader)) (\<lambda>postsResponse.
        await (lift (iterate (data postsResponse))) (\<lambda>posts.
        await (merge_posts E authHeader sourceCategoryId targetCategoryId posts 0)
          (\<lambda>mergedCount.
        await (if dflt True deleteSource
               then await (deleteCategory E sourceCategoryId (Some True)) (\<lambda>_. ret ())
               else ret ()) (\<lambda>_.
        ret (JObj [(''success'', JBool True), (''mergedPosts'', JNum mergedCount)])))))))))
       (\<lambda>error. ret (failure error))"

text \<open>
  \<open>[...new Set(xs)]\<close>: the first occurrence of every value is kept.  Numbers, strings
  and the other primitives are compared by value; two objects or arrays out of a parsed
  response are never the same object.
\<close>

fun same_value :: "json \<Rightarrow> json \<Rightarrow> bool" where
  "same_value (JArr xs) v = False"
| "same_value (JObj kvs) v = False"
| "same_value u v = (u = v)"

fun set_values :: "json list \<Rightarrow> json list \<Rightarrow> json list" where
  "set_values seen [] = seen"
| "set_values seen (x # xs) =
     (if \<exists>y \<in> set seen. same_value y x then set_values seen xs
      else set_values (seen @ [x]) xs)"

text \<open>
  The loop shared by \<open>assignCategoriesToPosts\<close> and \<open>assignTagsToPosts\<close>; \<open>key\<close> is
  \<open>categories\<close> or \<open>tags\<close>.
\<close>

fun assign_posts ::
  "env \<Rightarrow> jsstring \<Rightarrow> string \<Rightarrow> int list \<Rightarrow> bool \<Rightarrow> int list \<Rightarrow> int \<Rightarrow> int async" where
  "assign_posts E authHeader key ids replaceExisting [] updatedCount = ret updatedCount"
| "assign_posts E authHeader key ids replaceExisting (postId # rest) updatedCount =
     await read_config (\<lambda>cfg.
     await (if \<not> replaceExisting then
              await (axios_get E
                       (siteUrl cfg @ js ''/wp-json/wp/v2/posts/'' @ number_toString postId)
                       (auth_headers authHeader)) (\<lambda>postResponse.
              await (lift (js_or (get_prop (data postResponse) key) (Inr (JArr [])))) (\<lambda>current.
              await (lift (iterate current)) (\<lambda>current_items.
              ret (JArr (set_values [] (current_items @ map JNum ids))))))
            else ret (numbers ids)) (\<lambda>new_ids.
     await (axios_put E (siteUrl cfg @ js ''/wp-json/wp/v2/posts/'' @ number_toString postId)
              (JObj [(key, new_ids)]) (json_headers authHeader)) (\<lambda>_.
     assign_posts E authHeader key ids replaceExisting rest (updatedCount + 1))))"

definition assignCategoriesToPosts ::
  "env \<Rightarrow> int list \<Rightarrow> int list \<Rightarrow> bool option \<Rightarrow> json async" where
  "assignCategoriesToPosts E postIds categoryIds replaceExisting =
     try_catch
       (await require_session (\<lambda>_.
        await getAuthHeader (\<lambda>authHeader.
        await (assign_posts E authHeader ''categories'' categoryIds (dflt False replaceExisting)
                 postIds 0) (\<lambda>updatedCount.
        ret (JObj [(''success'', JBool True), (''updatedPosts'', JNum updatedCount)])))))
       (\<lambda>error. ret (failure error))"

definition assignTagsToPosts ::
  "env \<Rightarrow> int list \<Rightarrow> int list \<Rightarrow> bool option \<Rightarrow> json async" where
  "assignTagsToPosts E postIds tagIds replaceExisting =
     try_catch
       (await require_session (\<lambda>_.
        await getAuthHeader (\<lambda>authHeader.
        await (assign_posts E authHeader ''tags'' tagIds (dflt False replaceExisting)
                 postIds 0) (\<lambda>updatedCount.
        ret (JObj [(''success'', JBool True), (''updatedPosts'', JNum updatedCount)])))))
       (\<lambda>error. ret (failure error))"

datatype taxonomy_type = All | Builtin | Custom

text \<open>\<open>Object.values(v)\<close>, the properties taken in the order the object lists them.\<close>

fun Object_values :: "json \<Rightarrow> js_error + json list" where
  "Object_values (JObj kvs) = Inr (map snd kvs)"
| "Object_values (JArr xs) = Inr xs"
| "Object_values (JStr s) = Inr (map (\<lambda>c. JStr [c]) s)"
| "Object_values JUndefined = Inl (TypeError (js ''Cannot convert undefined or null to object''))"
| "Object_values JNull = Inl (TypeError (js ''Cannot convert undefined or null to object''))"
| "Object_values v = Inr []"

text \<open>\<open>xs.filter(p)\<close> where the predicate may throw.\<close>

fun filter_all :: "(json \<Rightarrow> js_error + bool) \<Rightarrow> json list \<Rightarrow> js_error + json list" where
  "filter_all p [] = Inr []"
| "filter_all p (x # xs) =
     and_then (p x) (\<lambda>keep. and_then (filter_all p xs)
       (\<lambda>ys. Inr (if keep then x # ys else ys)))"

definition is_builtin :: "json \<Rightarrow> js_error + bool" where
  "is_builtin tax =
     and_then (get_prop tax ''name'')
       (\<lambda>n. Inr (n = JStr (js ''category'') \<or> n = JStr (js ''post_tag'')))"

definition listTaxonomies :: "env \<Rightarrow> taxonomy_type option \<Rightarrow> json async" where
  "listTaxonomies E type =
     try_catch
       (await require_session (\<lambda>_.
        await getAuthHeader (\<lambda>authHeader.
        await read_config (\<lambda>cfg.
        await (axios_get E (siteUrl cfg @ js ''/wp-json/wp/v2/taxonomies'')
                 (auth_headers authHeader)) (\<lambda>response.
        await (lift (Object_values (data response))) (\<lambda>taxonomies.
        await (case dflt All type of
                 All \<Rightarrow> ret taxonomies
               | Builtin \<Rightarrow> lift (filter_all is_builtin taxonomies)
               | Custom \<Rightarrow>
                   lift (filter_all (\<lambda>tax. and_then (is_builtin tax) (\<lambda>b. Inr (\<not> b)))
                           taxonomies)) (\<lambda>taxonomies.
        ret (JObj [(''success'', JBool True), (''taxonomies'', JArr taxonomies)]))))))))
       (\<lambda>error. ret (failure error))"

subsection \<open>Users\<close>

record ListUsersOptions =
  luo_page :: "int option"
  luo_perPage :: "int option"
  luo_role :: "jsstring option"
  luo_search :: "jsstring option"
  luo_orderBy :: "jsstring option"
  luo_order :: "jsstring option"
  luo_registeredAfter :: "jsstring option"
  luo_registeredBefore :: "jsstring option"

definition listUsers :: "env \<Rightarrow> ListUsersOptions \<Rightarrow> json async" where
  "listUsers E options =
     try_catch
       (await require_session (\<lambda>_.
        await (ret (append_str ''before'' (luo_registeredBefore options)
                   (append_str ''after'' (luo_registeredAfter options)
                   (append_str ''order'' (luo_order options)
                   (append_str ''orderby'' (luo_orderBy options)
                   (append_str ''search'' (luo_search options)
                   (append_str ''roles'' (luo_role options)
                   (append_num ''per_page'' (luo_perPage options)
                   (append_num ''page'' (luo_page options) []))))))))) (\<lambda>params.
        await getAuthHeader (\<lambda>authHeader.
        await read_config (\<lambda>cfg.
        await (axios_get E (siteUrl cfg @ js ''/wp-json/wp/v2/users?'' @ params_toString params)
                 (auth_headers authHeader)) (\<lambda>response.
        ret (JObj [(''success'', JBool True), (''users'', data response),
                   (''totalPages'', header_int response ''x-wp-totalpages'' ''1'')])))))))
       (\<lambda>error. ret (failure error))"

record CreateUserData =
  cud_username :: jsstring
  cud_email :: jsstring
  cud_password :: jsstring
  cud_firstName :: "jsstring option"
  cud_lastName :: "jsstring option"
  cud_displayName :: "jsstring option"
  cud_role :: "jsstring option"
  cud_bio :: "jsstring option"
  cud_website :: "jsstring option"
  cud_sendNotification :: "bool option"

text \<open>\<open>x || d\<close> for an optional string.\<close>

definition str_or :: "jsstring option \<Rightarrow> jsstring \<Rightarrow> jsstring" where
  "str_or x d = (if truthy_str x then interpolate x else d)"

definition createUser :: "env \<Rightarrow> CreateUserData \<Rightarrow> json async" where
  "createUser E userData =
     try_catch
       (await require_session (\<lambda>_.
        await (ret (JObj
                 [(''username'', JStr (cud_username userData)),
                  (''email'', JStr (cud_email userData)),
                  (''password'', JStr (cud_password userData)),
                  (''first_name'', JStr (str_or (cud_firstName userData) [])),
                  (''last_name'', JStr (str_or (cud_lastName userData) [])),
                  (''name'', JStr (str_or (cud_displayName userData) (cud_username userData))),
                  (''roles'', JArr [JStr (str_or (cud_role userData) (js ''subscriber''))]),
                  (''description'', JStr (str_or (cud_bio userData) [])),
                  (''url'', JStr (str_or (cud_website userData) []))])) (\<lambda>payload.
        await getAuthHeader (\<lambda>authHeader.
        await read_config (\<lambda>cfg.
        await (axios_post E (siteUrl cfg @ js ''/wp-json/wp/v2/users'') payload
                 (json_headers authHeader)) (\<lambda>response.
        ret (JObj [(''success'', JBool True), (''user'', data response)])))))))
       (\<lambda>error. ret (failure error))"

record UpdateUserData =
  uud_email :: "jsstring option"
  uud_firstName :: "jsstring option"
  uud_lastName :: "jsstring option"
  uud_displayName :: "jsstring option"
  uud_bio :: "jsstring option"
  uud_website :: "jsstring option"
  uud_password :: "jsstring option"

text \<open>\<open>if (x) payload[k] = x\<close>\<close>

definition put_str :: "string \<Rightarrow> jsstring option \<Rightarrow> (string \<times> json) list \<Rightarrow> (string \<times> json) list" where
  "put_str k x payload = (if truthy_str x then payload @ [(k, JStr (interpolate x))] else payload)"

text \<open>
  The user identifier is declared a number, but \<open>resetUserPassword\<close> passes on whatever
  the server's user list holds, so the operation takes any value; the URL carries its
  string form.
\<close>

definition updateUser :: "env \<Rightarrow> json \<Rightarrow> UpdateUserData \<Rightarrow> json async" where
  "updateUser E userId userData =
     try_catch
       (await require_session (\<lambda>_.
        await (ret (JObj
                 (put_str ''password'' (uud_password userData)
                 (put_str ''url'' (uud_website userData)
                 (put_str ''description'' (uud_bio userData)
                 (put_str ''name'' (uud_displayName userData)
                 (put_str ''last_name'' (uud_lastName userData)
                 (put_str ''first_name'' (uud_firstName userData)
                 (put_str ''email'' (uud_email userData) []))))))))) (\<lambda>payload.
        await getAuthHeader (\<lambda>authHeader.
        await read_config (\<lambda>cfg.
        await (interpolate_json userId) (\<lambda>id_text.
        await (axios_post E (siteUrl cfg @ js ''/wp-json/wp/v2/users/'' @ id_text) payload
                 (json_headers authHeader)) (\<lambda>response.
        ret (JObj [(''success'', JBool True), (''user'', data response)]))))))))
       (\<lambda>error. ret (failure error))"

definition disableUser :: "env \<Rightarrow> int \<Rightarrow> jsstring option \<Rightarrow> json async" where
  "disableUser E userId reason =
     try_catch
       (await require_session (\<lambda>_.
        await getAuthHeader (\<lambda>authHeader.
        await read_config (\<lambda>cfg.
        await (axios_delete E
                 (siteUrl cfg @ js ''/wp-json/wp/v2/users/'' @ number_toString userId
                    @ js ''?reassign=1'')
                 (auth_headers authHeader)) (\<lambda>response.
        ret (JObj [(''success'', JBool True),
                   (''message'', JStr (js ''User '' @ number_toString userId
                      @ js '' has been disabled''
                      @ (if truthy_str reason
                         then js '' (Reason: '' @ interpolate reason @ js '')'' else [])))]))))))
       (\<lambda>error. ret (failure error))"

record ResetPasswordOptions =
  rpo_userId :: "int option"
  rpo_email :: "jsstring option"
  rpo_sendEmail :: "bool option"

text \<open>
  \<open>Math.random().toString(36)\<close>: \<open>0\<close> for zero, otherwise \<open>0.\<close> and the digits of the
  fraction in base 36.  \<open>s.slice(-n)\<close> is the last \<open>n\<close> code units of \<open>s\<close>, or all of
  \<open>s\<close> when it is shorter.
\<close>

definition digit36 :: "nat \<Rightarrow> jschar" where
  "digit36 d = of_char (''0123456789abcdefghijklmnopqrstuvwxyz'' ! (d mod 36))"

definition random_toString36 :: "nat list \<Rightarrow> jsstring" where
  "random_toString36 ds = (if ds = [] then js ''0'' else js ''0.'' @ map digit36 ds)"

definition slice_last :: "nat \<Rightarrow> 'a list \<Rightarrow> 'a list" where
  "slice_last n s = drop (length s - n) s"

text \<open>\<open>v.length\<close> and \<open>v[0]\<close> on a value that is not \<open>null\<close> or \<open>undefined\<close>.\<close>

fun js_length :: "json \<Rightarrow> json" where
  "js_length (JArr xs) = JNum (int (length xs))"
| "js_length (JStr s) = JNum (int (length s))"
| "js_length v = field v ''length''"

fun first_element :: "json \<Rightarrow> json" where
  "first_element (JArr xs) = (case xs of [] \<Rightarrow> JUndefined | x # _ \<Rightarrow> x)"
| "first_element (JStr s) = (case s of [] \<Rightarrow> JUndefined | c # _ \<Rightarrow> JStr [c])"
| "first_element v = field v ''0''"

definition users_found :: "json \<Rightarrow> bool" where
  "users_found usersResult =
     (truthy (field usersResult ''success'') \<and>
      (case field usersResult ''users'' of
         JUndefined \<Rightarrow> False
       | JNull \<Rightarrow> False
       | users \<Rightarrow> truthy (js_length users)))"

definition resetUserPassword :: "env \<Rightarrow> ResetPasswordOptions \<Rightarrow> json async" where
  "resetUserPassword E options =
     try_catch
       (await require_session (\<lambda>_.
        await (if \<not> truthy_num (rpo_userId options) \<and> truthy_str (rpo_email options) then
                 await (listUsers E
                          \<lparr>luo_page = None, luo_perPage = Some 1, luo_role = None,
                           luo_search = rpo_email options, luo_orderBy = None, luo_order = None,
                           luo_registeredAfter = None, luo_registeredBefore = None\<rparr>)
                   (\<lambda>usersResult.
                 if \<not> users_found usersResult
                 then throw (Error (js ''User not found with provided email''))
                 else lift (get_prop (first_element (field usersResult ''users'')) ''id''))
               else ret (opt_json JNum (rpo_userId options))) (\<lambda>userId.
        if \<not> truthy userId then throw (Error (js ''User ID could not be determined''))
        else
        await (ret (slice_last 12 (random_toString36 (Math_random E)))) (\<lambda>newPassword.
        await (updateUser E userId
                 \<lparr>uud_email = None, uud_firstName = None, uud_lastName = None,
                  uud_displayName = None, uud_bio = None, uud_website = None,
                  uud_password = Some newPassword\<rparr>) (\<lambda>updateResult.
        if \<not> truthy (field updateResult ''success'')
        then throw (Error (js ''Failed to reset password''))
        else
        await (interpolate_json userId) (\<lambda>id_text.
        ret (JObj
          [(''success'', JBool True),
           (''message'', JStr (js ''Password reset for user '' @ id_text @ js ''. ''
              @ (if dflt False (rpo_sendEmail options)
                 then js ''Reset notification sent via email.''
                 else js ''New password generated.''))),
           (''resetLink'',
              if dflt False (rpo_sendEmail options) then JUndefined
              else JStr (js ''Temporary password: '' @ newPassword))])))))))
       (\<lambda>error. ret (failure error))"

definition setUserRole :: "env \<Rightarrow> int \<Rightarrow> jsstring \<Rightarrow> bool option \<Rightarrow> json async" where
  "setUserRole E userId role removeOtherRoles =
     try_catch
       (await require_session (\<lambda>_.
        await (ret (JObj
                 [(''roles'', if dflt True removeOtherRoles then JArr [JStr role] else JUndefined),
                  (''role'', if \<not> dflt True removeOtherRoles then JStr role else JUndefined)]))
          (\<lambda>payload.
        await getAuthHeader (\<lambda>authHeader.
        await read_config (\<lambda>cfg.
        await (axios_post E (siteUrl cfg @ js ''/wp-json/wp/v2/users/'' @ number_toString userId)
                 payload (json_headers authHeader)) (\<lambda>response.
        ret (JObj [(''success'', JBool True), (''user'', data response)])))))))
       (\<lambda>error. ret (failure error))"

text \<open>The fixed table of roles that \<open>listUserRoles\<close> answers with.\<close>

definition capabilities :: "bool \<Rightarrow> string list \<Rightarrow> json" where
  "capabilities includeCapabilities names =
     (if includeCapabilities then JObj (map (\<lambda>n. (n, JBool True)) names) else JObj [])"

definition role_entry :: "string \<Rightarrow> string \<Rightarrow> json \<Rightarrow> json" where
  "role_entry name display_name caps =
     JObj [(''name'', JStr (js name)), (''display_name'', JStr (js display_name)),
           (''capabilities'', caps)]"

definition defaultRoles :: "bool \<Rightarrow> json" where
  "defaultRoles includeCapabilities =
     JArr
      [role_entry ''administrator'' ''Administrator'' (capabilities includeCapabilities
         [''switch_themes'', ''edit_themes'', ''activate_plugins'', ''edit_plugins'',
          ''edit_users'', ''edit_files'', ''manage_options'', ''moderate_comments'',
          ''manage_categories'', ''manage_links'', ''upload_files'', ''import'',
          ''unfiltered_html'', ''edit_posts'', ''edit_others_posts'', ''edit_published_posts'',
          ''publish_posts'', ''edit_pages'', ''read'', ''level_10'', ''level_9'', ''level_8'',
          ''level_7'', ''level_6'', ''level_5'', ''level_4'', ''level_3'', ''level_2'',
          ''level_1'', ''level_0'']),
       role_entry ''editor'' ''Editor'' (capabilities includeCapabilities
         [''moderate_comments'', ''manage_categories'', ''manage_links'', ''upload_files'',
          ''unfiltered_html'', ''edit_posts'', ''edit_others_posts'', ''edit_published_posts'',
          ''publish_posts'', ''edit_pages'', ''read'', ''level_7'', ''level_6'', ''level_5'',
          ''level_4'', ''level_3'', ''level_2'', ''level_1'', ''level_0'']),
       role_entry ''author'' ''Author'' (capabilities includeCapabilities
         [''upload_files'', ''edit_posts'', ''edit_published_posts'', ''publish_posts'',
          ''read'', ''level_2'', ''level_1'', ''level_0'']),
       role_entry ''contributor'' ''Contributor'' (capabilities includeCapabilities
         [''edit_posts'', ''read'', ''level_1'', ''level_0'']),
       role_entry ''subscriber'' ''Subscriber'' (capabilities includeCapabilities
         [''read'', ''level_0''])]"

definition listUserRoles :: "env \<Rightarrow> bool option \<Rightarrow> json async" where
  "listUserRoles E includeCapabilities =
     try_catch
       (await require_session (\<lambda>_.
        await getAuthHeader (\<lambda>authHeader.
        await read_config (\<lambda>cfg.
        await (axios_get E (siteUrl cfg @ js ''/wp-json/wp/v2/types/post'')
                 (auth_headers authHeader)) (\<lambda>response.
        ret (JObj [(''success'', JBool True),
                   (''roles'', defaultRoles (dflt False includeCapabilities))]))))))
       (\<lambda>error. ret (failure error))"

subsection \<open>Media\<close>

text \<open>The simplified view of a media item, built by six operations.\<close>

definition media_of :: "json \<Rightarrow> js_error + json" where
  "media_of d =
     object [(''id'', get_prop d ''id''),
             (''title'', path d [''title'', ''rendered'']),
             (''caption'', path d [''caption'', ''rendered'']),
             (''altText'', get_prop d ''alt_text''),
             (''description'', path d [''description'', ''rendered'']),
             (''mediaType'', get_prop d ''media_type''),
             (''mimeType'', get_prop d ''mime_type''),
             (''sourceUrl'', get_prop d ''source_url''),
             (''width'', and_then (get_prop d ''media_details'') (\<lambda>m. Inr (opt_prop m ''width''))),
             (''height'', and_then (get_prop d ''media_details'') (\<lambda>m. Inr (opt_prop m ''height''))),
             (''filesize'',
                and_then (get_prop d ''media_details'') (\<lambda>m. Inr (opt_prop m ''filesize''))),
             (''date'', get_prop d ''date''),
             (''link'', get_prop d ''link''),
             (''slug'', get_prop d ''slug'')]"

record MediaUploadOptions =
  muo_title :: "jsstring option"
  muo_caption :: "jsstring option"
  muo_altText :: "jsstring option"
  muo_description :: "jsstring option"

text \<open>\<open>path.basename\<close>: what follows the last slash, trailing slashes apart.\<close>

definition basename :: "jsstring \<Rightarrow> jsstring" where
  "basename p = rev (takeWhile (\<lambda>c. c \<noteq> 0x2F) (dropWhile (\<lambda>c. c = 0x2F) (rev p)))"

text \<open>
  A multipart form is the list of its parts.  The file part holds the stream and the
  file name; a local file is a stream over its path, opened only when the form is sent.
\<close>

definition file_part :: "json \<Rightarrow> jsstring \<Rightarrow> json" where
  "file_part stream filename = JObj [(''value'', stream), (''filename'', JStr filename)]"

definition multipart_headers :: "jsstring \<Rightarrow> json" where
  "multipart_headers authHeader =
     JObj [(''headers'', JObj [(''Authorization'', JStr authHeader),
                               (''content-type'', JStr (js ''multipart/form-data''))])]"

definition uploadMedia :: "env \<Rightarrow> jsstring \<Rightarrow> MediaUploadOptions \<Rightarrow> json async" where
  "uploadMedia E source options =
     try_catch
       (await require_session (\<lambda>_.
        await getAuthHeader (\<lambda>authHeader.
        await (if starts_with source (js ''http'') then
                 await (axios_get E source (JObj [(''responseType'', JStr (js ''stream''))]))
                   (\<lambda>response. ret [(''file'', file_part (data response) (basename source))])
               else
                 ret [(''file'',
                       file_part (JObj [(''createReadStream'', JStr source)]) (basename source))])
          (\<lambda>formData.
        await (ret (put_str ''description'' (muo_description options)
                   (put_str ''alt_text'' (muo_altText options)
                   (put_str ''caption'' (muo_caption options)
                   (put_str ''title'' (muo_title options) formData))))) (\<lambda>formData.
        await read_config (\<lambda>cfg.
        await (axios_post E (siteUrl cfg @ js ''/wp-json/wp/v2/media'') (JObj formData)
                 (multipart_headers authHeader)) (\<lambda>response.
        lift (object [(''success'', Inr (JBool True)), (''media'', media_of (data response))]))))))))
       (\<lambda>error. ret (failure error))"

record MediaListOptions =
  mlo_page :: "int option"
  mlo_perPage :: "int option"
  mlo_mediaType :: "jsstring option"
  mlo_mimeType :: "jsstring option"
  mlo_orderBy :: "jsstring option"
  mlo_order :: "jsstring option"
  mlo_parent :: "int option"

text \<open>\<open>if (x && x !== 'any') params.append(k, x)\<close>\<close>

definition append_type :: "string \<Rightarrow> jsstring option \<Rightarrow> URLSearchParams \<Rightarrow> URLSearchParams" where
  "append_type k x params =
     (if truthy_str x \<and> interpolate x \<noteq> js ''any'' then params @ [(js k, interpolate x)]
      else params)"

definition listMedia :: "env \<Rightarrow> MediaListOptions \<Rightarrow> json async" where
  "listMedia E options =
     try_catch
       (await require_session (\<lambda>_.
        await getAuthHeader (\<lambda>authHeader.
        await (ret (append_num ''parent'' (mlo_parent options)
                   (append_str ''order'' (mlo_order options)
                   (append_str ''orderby'' (mlo_orderBy options)
                   (append_str ''mime_type'' (mlo_mimeType options)
                   (append_type ''media_type'' (mlo_mediaType options)
                   (append_num ''per_page'' (mlo_perPage options)
                   (append_num ''page'' (mlo_page options) [])))))))) (\<lambda>params.
        await read_config (\<lambda>cfg.
        await (axios_get E (siteUrl cfg @ js ''/wp-json/wp/v2/media?'' @ params_toString params)
                 (auth_headers authHeader)) (\<lambda>response.
        await (ret (header_int response ''x-wp-totalpages'' ''1'')) (\<lambda>totalPages.
        lift (object
          [(''success'', Inr (JBool True)),
           (''media'', array_map (data response) media_of),
           (''totalPages'', Inr totalPages)]))))))))
       (\<lambda>error. ret (failure error))"

record MediaSearchOptions =
  mso_query :: jsstring
  mso_mediaType :: "jsstring option"
  mso_dateAfter :: "jsstring option"
  mso_dateBefore :: "jsstring option"
  mso_limit :: "int option"

definition searchMedia :: "env \<Rightarrow> MediaSearchOptions \<Rightarrow> json async" where
  "searchMedia E options =
     try_catch
       (await require_session (\<lambda>_.
        await getAuthHeader (\<lambda>authHeader.
        await (ret (append_num ''per_page'' (mso_limit options)
                   (append_str ''before'' (mso_dateBefore options)
                   (append_str ''after'' (mso_dateAfter options)
                   (append_type ''media_type'' (mso_mediaType options)
                   [(js ''search'', mso_query options)]))))) (\<lambda>params.
        await read_config (\<lambda>cfg.
        await (axios_get E (siteUrl cfg @ js ''/wp-json/wp/v2/media?'' @ params_toString params)
                 (auth_headers authHeader)) (\<lambda>response.
        lift (object
          [(''success'', Inr (JBool True)),
           (''media'', array_map (data response) media_of)])))))))
       (\<lambda>error. ret (failure error))"

record MediaMetadata =
  mm_title :: "jsstring option"
  mm_caption :: "jsstring option"
  mm_altText :: "jsstring option"
  mm_description :: "jsstring option"

definition editMediaMetadata :: "env \<Rightarrow> int \<Rightarrow> MediaMetadata \<Rightarrow> json async" where
  "editMediaMetadata E mediaId metadata =
     try_catch
       (await require_session (\<lambda>_.
        await getAuthHeader (\<lambda>authHeader.
        await (ret (JObj
                 (put_str ''description'' (mm_description metadata)
                 (put_str ''alt_text'' (mm_altText metadata)
                 (put_str ''caption'' (mm_caption metadata)
                 (put_str ''title'' (mm_title metadata) [])))))) (\<lambda>updateData.
        await read_config (\<lambda>cfg.
        await (axios_post E (siteUrl cfg @ js ''/wp-json/wp/v2/media/'' @ number_toString mediaId)
                 updateData (json_headers authHeader)) (\<lambda>response.
        lift (object [(''success'', Inr (JBool True)), (''media'', media_of (data response))])))))))
       (\<lambda>error. ret (failure error))"

definition deleteMedia :: "env \<Rightarrow> int \<Rightarrow> bool option \<Rightarrow> json async" where
  "deleteMedia E mediaId force =
     try_catch
       (await require_session (\<lambda>_.
        await getAuthHeader (\<lambda>authHeader.
        await (ret (if dflt True force then [(js ''force'', js ''true'')] else [])) (\<lambda>params.
        await read_config (\<lambda>cfg.
        await (axios_delete E
                 (siteUrl cfg @ js ''/wp-json/wp/v2/media/'' @ number_toString mediaId @ js ''?''
                    @ params_toString params)
                 (auth_headers authHeader)) (\<lambda>_.
        ret (JObj [(''success'', JBool True)])))))))
       (\<lambda>error. ret (failure error))"

definition setFeaturedImage :: "env \<Rightarrow> int \<Rightarrow> int \<Rightarrow> json async" where
  "setFeaturedImage E postId mediaId =
     try_catch
       (await require_session (\<lambda>_.
        await getAuthHeader (\<lambda>authHeader.
        await read_config (\<lambda>cfg.
        await (axios_post E (siteUrl cfg @ js ''/wp-json/wp/v2/posts/'' @ number_toString postId)
                 (JObj [(''featured_media'', JNum mediaId)]) (json_headers authHeader)) (\<lambda>_.
        ret (JObj [(''success'', JBool True)]))))))
       (\<lambda>error. ret (failure error))"

definition getMediaDetails :: "env \<Rightarrow> int \<Rightarrow> json async" where
  "getMediaDetails E mediaId =
     try_catch
       (await require_session (\<lambda>_.
        await getAuthHeader (\<lambda>authHeader.
        await read_config (\<lambda>cfg.
        await (axios_get E (siteUrl cfg @ js ''/wp-json/wp/v2/media/'' @ number_toString mediaId)
                 (auth_headers authHeader)) (\<lambda>response.
        lift (object [(''success'', Inr (JBool True)), (''media'', media_of (data response))]))))))
       (\<lambda>error. ret (failure error))"

text \<open>The loop of \<open>bulkDeleteMedia\<close>, with the two arrays it fills.\<close>

fun delete_each ::
  "env \<Rightarrow> bool option \<Rightarrow> int list \<Rightarrow> int list \<Rightarrow> int list \<Rightarrow> (int list \<times> int list) async" where
  "delete_each E force [] deleted failed = ret (deleted, failed)"
| "delete_each E force (mediaId # rest) deleted failed =
     await (deleteMedia E mediaId (Some (dflt True force))) (\<lambda>result.
       if truthy (field result ''success'')
       then delete_each E force rest (deleted @ [mediaId]) failed
       else delete_each E force rest deleted (failed @ [mediaId]))"

definition bulkDeleteMedia :: "env \<Rightarrow> int list \<Rightarrow> bool option \<Rightarrow> json async" where
  "bulkDeleteMedia E mediaIds force =
     try_catch
       (await require_session (\<lambda>_.
        await (delete_each E force mediaIds [] []) (\<lambda>(deleted, failed).
        ret (JObj [(''success'', JBool True), (''deleted'', numbers deleted),
                   (''failed'', numbers failed)]))))
       (\<lambda>error.
          ret (JObj [(''success'', JBool False), (''deleted'', JArr []),
                     (''failed'', numbers mediaIds),
                     (''error'', formatErrorResponse error)]))"

record OptimizeOptions =
  oo_quality :: "int option"
  oo_replaceOriginal :: "bool option"

text \<open>
  The compression itself (\<open>tinify.fromBuffer(...)\<close>, the optional \<open>resize\<close>,
  \<open>toBuffer()\<close>) is a call to the external service; it is recorded among the requests
  and answered by the environment.  A source URL that is not a string never reaches
  the network.
\<close>

definition tinify_toBuffer :: "env \<Rightarrow> json \<Rightarrow> bool \<Rightarrow> json async" where
  "tinify_toBuffer E img resize =
     (\<lambda>w. (tinify E img resize,
            w\<lparr>requests := requests w
                 @ [Request POST (js ''https://api.tinify.com/shrink'')
                      (JObj [(''resize'', JBool resize)]) img]\<rparr>))"

definition optimizeMedia :: "env \<Rightarrow> int \<Rightarrow> OptimizeOptions \<Rightarrow> json async" where
  "optimizeMedia E mediaId options =
     try_catch
       (if \<not> truthy_str (TINIFY_API_KEY E) then throw (Error (js ''TinyPNG API key not configured''))
        else
        await require_session (\<lambda>_.
        await (getMediaDetails E mediaId) (\<lambda>mediaDetails.
        if \<not> truthy (field mediaDetails ''success'') \<or> \<not> truthy (field mediaDetails ''media'')
        then throw (Error (js ''Media not found''))
        else
        await (case field (field mediaDetails ''media'') ''sourceUrl'' of
                 JStr url \<Rightarrow> axios_get E url (JObj [(''responseType'', JStr (js ''arraybuffer''))])
               | _ \<Rightarrow> throw (TypeError (js ''Invalid URL''))) (\<lambda>imageResponse.
        await (tinify_toBuffer E (data imageResponse) (truthy_num (oo_quality options)))
          (\<lambda>optimized.
        await (if dflt False (oo_replaceOriginal options) then
                 await (interpolate_json (field (field mediaDetails ''media'') ''slug''))
                   (\<lambda>slug.
                 await getAuthHeader (\<lambda>authHeader.
                 await read_config (\<lambda>cfg.
                 await (axios_post E
                          (siteUrl cfg @ js ''/wp-json/wp/v2/media/'' @ number_toString mediaId)
                          (JObj [(''file'', file_part optimized (js ''optimized_'' @ slug))])
                          (multipart_headers authHeader)) (\<lambda>_. ret ()))))
               else ret ()) (\<lambda>_.
        ret (JObj [(''success'', JBool True), (''media'', field mediaDetails ''media'')])))))))
       (\<lambda>error. ret (failure error))"

section \<open>tools/taxonomyTools.ts: the merge-categories tool\<close>

definition tool_error :: "jsstring \<Rightarrow> json" where
  "tool_error text' =
     JObj [(''content'', JArr [JObj [(''type'', JStr (js ''text'')), (''text'', JStr text')]]),
           (''isError'', JBool True)]"

definition not_implemented :: jsstring where
  "not_implemented =
     [0x26A0, 0xFE0F] @ js '' merge-categories tool not yet implemented. Please add mergeCategories function to wordpress/api.js''"

definition merge_categories_tool :: "env \<Rightarrow> int \<Rightarrow> int \<Rightarrow> bool \<Rightarrow> json async" where
  "merge_categories_tool E sourceCategoryId targetCategoryId deleteSource =
     try_catch
       (if sourceCategoryId = targetCategoryId
        then ret (tool_error (js ''Source and target categories cannot be the same''))
        else
          await (mergeCategories E sourceCategoryId targetCategoryId (Some deleteSource))
            (\<lambda>result. ret (tool_error not_implemented)))
       (\<lambda>error. ret (tool_error (js ''Error merging categories: '' @ message error)))"

section \<open>The exported operations as calls\<close>

text \<open>A call of a resource operation, with its arguments.\<close>

datatype resource_call =
    CreatePost jsstring jsstring "jsstring option" "jsstring option" "int list option"
      "int list option"
  | GetCategories
  | GetTags
  | UpdatePost int json
  | DeletePost int "bool option"
  | GetPost int "bool option"
  | ListPosts ListPostsOptions
  | CreateCategory json
  | CreateTag json
  | UpdateCategory int json
  | UpdateTag int json
  | DeleteCategory int "bool option"
  | DeleteTag int "bool option"
  | MergeCategories int int "bool option"
  | AssignCategoriesToPosts "int list" "int list" "bool option"
  | AssignTagsToPosts "int list" "int list" "bool option"
  | ListTaxonomies "taxonomy_type option"
  | ListUsers ListUsersOptions
  | CreateUser CreateUserData
  | UpdateUser json UpdateUserData
  | DisableUser int "jsstring option"
  | ResetUserPassword ResetPasswordOptions
  | SetUserRole int jsstring "bool option"
  | ListUserRoles "bool option"
  | UploadMedia jsstring MediaUploadOptions
  | ListMedia MediaListOptions
  | SearchMedia MediaSearchOptions
  | EditMediaMetadata int MediaMetadata
  | DeleteMedia int "bool option"
  | SetFeaturedImage int int
  | GetMediaDetails int
  | BulkDeleteMedia "int list" "bool option"
  | OptimizeMedia int OptimizeOptions

fun run :: "env \<Rightarrow> resource_call \<Rightarrow> json async" where
  "run E (CreatePost title content status excerpt categories tags) =
     createPost E title content status excerpt categories tags"
| "run E GetCategories = getCategories E"
| "run E GetTags = getTags E"
| "run E (UpdatePost postId updates) = updatePost E postId updates"
| "run E (DeletePost postId force) = deletePost E postId force"
| "run E (GetPost postId includeRevisions) = getPost E postId includeRevisions"
| "run E (ListPosts options) = listPosts E options"
| "run E (CreateCategory d) = createCategory E d"
| "run E (CreateTag d) = createTag E d"
| "run E (UpdateCategory categoryId updates) = updateCategory E categoryId updates"
| "run E (UpdateTag tagId updates) = updateTag E tagId updates"
| "run E (DeleteCategory categoryId force) = deleteCategory E categoryId force"
| "run E (DeleteTag tagId force) = deleteTag E tagId force"
| "run E (MergeCategories s t deleteSource) = mergeCategories E s t deleteSource"
| "run E (AssignCategoriesToPosts postIds categoryIds replaceExisting) =
     assignCategoriesToPosts E postIds categoryIds replaceExisting"
| "run E (AssignTagsToPosts postIds tagIds replaceExisting) =
     assignTagsToPosts E postIds tagIds replaceExisting"
| "run E (ListTaxonomies type) = listTaxonomies E type"
| "run E (ListUsers options) = listUsers E options"
| "run E (CreateUser userData) = createUser E userData"
| "run E (UpdateUser userId userData) = updateUser E userId userData"
| "run E (DisableUser userId reason) = disableUser E userId reason"
| "run E (ResetUserPassword options) = resetUserPassword E options"
| "run E (SetUserRole userId role removeOtherRoles) = setUserRole E userId role removeOtherRoles"
| "run E (ListUserRoles includeCapabilities) = listUserRoles E includeCapabilities"
| "run E (UploadMedia source options) = uploadMedia E source options"
| "run E (ListMedia options) = listMedia E options"
| "run E (SearchMedia options) = searchMedia E options"
| "run E (EditMediaMetadata mediaId metadata) = editMediaMetadata E mediaId metadata"
| "run E (DeleteMedia mediaId force) = deleteMedia E mediaId force"
| "run E (SetFeaturedImage postId mediaId) = setFeaturedImage E postId mediaId"
| "run E (GetMediaDetails mediaId) = getMediaDetails E mediaId"
| "run E (BulkDeleteMedia mediaIds force) = bulkDeleteMedia E mediaIds force"
| "run E (OptimizeMedia mediaId options) = optimizeMedia E mediaId options"

text \<open>
  Any exported function of the module: the session functions, the probes, the pure
  error formatter, or a resource operation.  What the call answers is discarded here;
  the state it leaves is kept.
\<close>

datatype api_call =
    SetWordPressConfig PartialConfig
  | GetWordPressConfig
  | GetAuthHeader
  | FormatErrorResponse js_error
  | TestAuthentication
  | TestSiteConnection jsstring
  | Resource resource_call

fun after :: "env \<Rightarrow> api_call \<Rightarrow> world \<Rightarrow> world" where
  "after E (SetWordPressConfig config) w = snd (setWordPressConfig config w)"
| "after E GetWordPressConfig w = snd (getWordPressConfig w)"
| "after E GetAuthHeader w = snd (getAuthHeader w)"
| "after E (FormatErrorResponse error) w = snd (ret (formatErrorResponse error) w)"
| "after E TestAuthentication w = snd (testAuthentication E w)"
| "after E (TestSiteConnection url) w = snd (testSiteConnection E url w)"
| "after E (Resource c) w = snd (run E c w)"

section \<open>Notions used in the properties\<close>

text \<open>A call has succeeded when it returned an envelope with \<open>success: true\<close>.\<close>

definition succeeded :: "js_error + json \<Rightarrow> bool" where
  "succeeded r = (case r of Inl e \<Rightarrow> False | Inr v \<Rightarrow> field v ''success'' = JBool True)"

text \<open>
  A session is operable with header \<open>h\<close> when it is configured and authenticated and
  \<open>h\<close> is the authorisation header its secrets give.
\<close>

definition operable :: "world \<Rightarrow> jsstring \<Rightarrow> bool" where
  "operable w h \<longleftrightarrow>
     siteUrl (wpConfig w) \<noteq> [] \<and> isAuthenticated (wpConfig w) \<and> auth_header_of (wpConfig w) = Inr h"

text \<open>An operation keeps the configuration when no run of it changes \<open>wpConfig\<close>.\<close>

definition keeps :: "'a async \<Rightarrow> bool" where
  "keeps m \<longleftrightarrow> (\<forall>w. wpConfig (snd (m w)) = wpConfig w)"

text \<open>The requests that the properties name, as the operations build them.\<close>

definition probe_request :: "WordPressConfig \<Rightarrow> jsstring \<Rightarrow> request" where
  "probe_request cfg h =
     Request GET (siteUrl cfg @ js ''/wp-json/wp/v2/users/me'') (auth_headers h) JUndefined"

definition posts_query :: "WordPressConfig \<Rightarrow> jsstring \<Rightarrow> int \<Rightarrow> request" where
  "posts_query cfg h sourceCategoryId =
     Request GET
       (siteUrl cfg @ js ''/wp-json/wp/v2/posts?categories='' @ number_toString sourceCategoryId
          @ js ''&per_page=100'')
       (auth_headers h) JUndefined"

definition category_delete :: "WordPressConfig \<Rightarrow> jsstring \<Rightarrow> int \<Rightarrow> request" where
  "category_delete cfg h categoryId =
     Request DELETE
       (siteUrl cfg @ js ''/wp-json/wp/v2/categories/'' @ number_toString categoryId
          @ js ''?force=true'')
       (auth_headers h) JUndefined"

definition media_delete :: "WordPressConfig \<Rightarrow> jsstring \<Rightarrow> bool \<Rightarrow> int \<Rightarrow> request" where
  "media_delete cfg h force mediaId =
     Request DELETE
       (siteUrl cfg @ js ''/wp-json/wp/v2/media/'' @ number_toString mediaId @ js ''?''
          @ params_toString (if force then [(js ''force'', js ''true'')] else []))
       (auth_headers h) JUndefined"

text \<open>
  Whether the server accepts each request of a sequence sent one after the other,
  starting from a given history.
\<close>

fun accepted :: "env \<Rightarrow> request list \<Rightarrow> request list \<Rightarrow> bool list" where
  "accepted E history [] = []"
| "accepted E history (r # rs) =
     (case server E history r of Inl e \<Rightarrow> False | Inr resp \<Rightarrow> True)
       # accepted E (history @ [r]) rs"

text \<open>
  The parts of the authentication probe: the state with the flag set, the answer to a
  failed probe, and the answer built from the body of a successful response.
\<close>

definition mark :: "bool \<Rightarrow> world \<Rightarrow> world" where
  "mark b w = w\<lparr>wpConfig := (wpConfig w)\<lparr>isAuthenticated := b\<rparr>\<rparr>"

definition probe_failed :: "js_error \<Rightarrow> world \<Rightarrow> (js_error + json) \<times> world" where
  "probe_failed error w =
     (Inr (JObj [(''success'', JBool False), (''error'', JStr (message error))]), mark False w)"

definition probe_answer :: "json \<Rightarrow> js_error + json" where
  "probe_answer d =
     and_then (get_prop d ''roles'') (\<lambda>r.
       object
         [(''success'', Inr (JBool True)),
          (''userInfo'', object
             [(''id'', get_prop d ''id''),
              (''name'', js_or (get_prop d ''name'')
                          (js_or (get_prop d ''slug'') (Inr (JStr (js ''Unknown''))))),
              (''roles'',
                 case (if truthy r then r else JArr [JStr (js ''contributor'')]) of
                   JArr xs \<Rightarrow> Inr (if truthy r then r else JArr [JStr (js ''contributor'')])
                 | _ \<Rightarrow> and_then
                         (String_of (if truthy r then r else JArr [JStr (js ''contributor'')]))
                         (\<lambda>s. Inr (JArr [JStr s])))])])"

text \<open>
  Whether the probe can read a response body: the body is not \<open>null\<close> or \<open>undefined\<close>,
  and its \<open>roles\<close>, when they are an object, convert to a string.
\<close>

fun readable_body :: "json \<Rightarrow> bool" where
  "readable_body JUndefined = False"
| "readable_body JNull = False"
| "readable_body d =
     (case field d ''roles'' of JObj kvs \<Rightarrow> map_of kvs ''toString'' = None | _ \<Rightarrow> True)"

text \<open>Whether a call is to the one operation that needs the compression key.\<close>

fun needs_key :: "resource_call \<Rightarrow> bool" where
  "needs_key (OptimizeMedia mediaId options) = True"
| "needs_key c = False"

section \<open>Example sessions and environments\<close>

text \<open>
  A session configured with both secrets, after a successful probe (\<open>bot_world\<close>) and
  before it (\<open>fresh_world\<close>), and the header its application password gives.
\<close>

definition bot_config :: WordPressConfig where
  "bot_config =
     \<lparr>siteUrl = js ''https://example.com'', username = js ''bot'',
      password = Some (js ''hunter2''), appPassword = Some (js ''abcd 1234''),
      isAuthenticated = True\<rparr>"

definition bot_world :: world where
  "bot_world = \<lparr>wpConfig = bot_config, requests = []\<rparr>"

definition fresh_world :: world where
  "fresh_world = \<lparr>wpConfig = bot_config\<lparr>isAuthenticated := False\<rparr>, requests = []\<rparr>"

definition bot_header :: jsstring where
  "bot_header = js ''Basic Ym90OmFiY2QgMTIzNA==''"

text \<open>An environment whose server is unreachable and that has no compression key.\<close>

definition offline :: env where
  "offline =
     \<lparr>server = (\<lambda>history r. Inl (AxiosError (js ''Network Error'') None)),
      TINIFY_API_KEY = None, Math_random = [18],
      tinify = (\<lambda>img resize. Inl (Error (js ''Network Error'')))\<rparr>"

text \<open>A site that answers every request with the administrator's user record.\<close>

definition admin_record :: json where
  "admin_record =
     JObj [(''id'', JNum 1), (''name'', JStr (js ''bot'')),
           (''roles'', JArr [JStr (js ''administrator'')])]"

definition admin_site :: env where
  "admin_site =
     \<lparr>server = (\<lambda>history r. Inr \<lparr>data = admin_record, headers = []\<rparr>),
      TINIFY_API_KEY = None, Math_random = [18],
      tinify = (\<lambda>img resize. Inl (Error (js ''Network Error'')))\<rparr>"

text \<open>A site that answers every request with status 200 and the body \<open>null\<close>.\<close>

definition null_site :: env where
  "null_site =
     \<lparr>server = (\<lambda>history r. Inr \<lparr>data = JNull, headers = []\<rparr>),
      TINIFY_API_KEY = None, Math_random = [18],
      tinify = (\<lambda>img resize. Inl (Error (js ''Network Error'')))\<rparr>"

text \<open>
  A site that refuses to delete media item 2 for the example session and accepts
  every other request.
\<close>

definition picky :: env where
  "picky =
     \<lparr>server = (\<lambda>history r.
         if r = media_delete bot_config bot_header True 2
         then Inl (AxiosError (js ''Request failed with status code 500'')
                     (Some \<lparr>error_status = 500, error_statusText = js ''Internal Server Error'',
                            error_data = JNull\<rparr>))
         else Inr \<lparr>data = JObj [(''deleted'', JBool True)], headers = []\<rparr>),
      TINIFY_API_KEY = None, Math_random = [18],
      tinify = (\<lambda>img resize. Inl (Error (js ''Network Error'')))\<rparr>"

text \<open>
  A site whose every answer is an empty list, and a site that holds one post in
  category 4, accepts its update and refuses every deletion with status 403.
\<close>

definition tidy :: env where
  "tidy =
     \<lparr>server = (\<lambda>history r. Inr \<lparr>data = JArr [], headers = []\<rparr>),
      TINIFY_API_KEY = None, Math_random = [18],
      tinify = (\<lambda>img resize. Inl (Error (js ''Network Error'')))\<rparr>"

definition post11 :: json where
  "post11 = JObj [(''id'', JNum 11), (''categories'', JArr [JNum 4, JNum 6])]"

definition refusal :: js_error where
  "refusal =
     AxiosError (js ''Request failed with status code 403'')
       (Some \<lparr>error_status = 403, error_statusText = js ''Forbidden'', error_data = JNull\<rparr>)"

definition stubborn :: env where
  "stubborn =
     \<lparr>server = (\<lambda>history r.
         case r of
           Request DELETE url config body \<Rightarrow> Inl refusal
         | Request GET url config body \<Rightarrow> Inr \<lparr>data = JArr [post11], headers = []\<rparr>
         | Request POST url config body \<Rightarrow> Inr \<lparr>data = JObj [(''id'', JNum 7)], headers = []\<rparr>
         | Request PUT url config body \<Rightarrow> Inr \<lparr>data = JObj [(''id'', JNum 11)], headers = []\<rparr>),
      TINIFY_API_KEY = None, Math_random = [18],
      tinify = (\<lambda>img resize. Inl (Error (js ''Network Error'')))\<rparr>"

definition post11_update :: request where
  "post11_update =
     Request PUT (js ''https://example.com/wp-json/wp/v2/posts/11'') (json_headers bot_header)
       (JObj [(''categories'', JArr [JNum 6, JNum 9])])"

text \<open>
  A site that accepts every update while \<open>Math.random()\<close> returns 0.5, which
  \<open>toString(36)\<close> prints as \<open>0.i\<close>.
\<close>

definition half_draw :: env where
  "half_draw =
     \<lparr>server = (\<lambda>history r. Inr \<lparr>data = JObj [(''id'', JNum 7)], headers = []\<rparr>),
      TINIFY_API_KEY = None, Math_random = [18],
      tinify = (\<lambda>img resize. Inl (Error (js ''Network Error'')))\<rparr>"

text \<open>Calls and partial configurations used as examples.\<close>

definition reset_user7 :: ResetPasswordOptions where
  "reset_user7 = \<lparr>rpo_userId = Some 7, rpo_email = None, rpo_sendEmail = None\<rparr>"

definition optimize_1 :: resource_call where
  "optimize_1 = OptimizeMedia 1 \<lparr>oo_quality = None, oo_replaceOriginal = None\<rparr>"

definition hello_post :: resource_call where
  "hello_post = CreatePost (js ''Hello'') (js ''<p>World</p>'') None None None None"

definition claim_authenticated :: PartialConfig where
  "claim_authenticated =
     \<lparr>new_siteUrl = None, new_username = None, new_password = None, new_appPassword = None,
      new_isAuthenticated = Some True\<rparr>"

definition move_site :: PartialConfig where
  "move_site =
     \<lparr>new_siteUrl = Some (js ''https://example.org''), new_username = None,
      new_password = Some None, new_appPassword = None, new_isAuthenticated = None\<rparr>"

section \<open>Properties\<close>

subsection \<open>Laws of the combinators\<close>

lemma await_ret [simp]: "await (ret x) f = f x"
  by (simp add: await_def ret_def)

lemma await_throw [simp]: "await (throw e) f = throw e"
  by (simp add: await_def throw_def)

lemma try_catch_ret [simp]: "try_catch (ret x) h = ret x"
  by (simp add: try_catch_def ret_def)

lemma try_catch_throw [simp]: "try_catch (throw e) h = h e"
  by (simp add: try_catch_def throw_def)

lemma lift_simps [simp]: "lift (Inr x) = ret x" "lift (Inl e) = throw e"
  by (simp_all add: lift_def ret_def throw_def)

lemma js_nonempty [simp]: "s \<noteq> [] \<Longrightarrow> js s \<noteq> []"
  by (simp add: js_def)

subsection \<open>The authorisation header\<close>

lemma auth_header_appPassword:
  assumes "appPassword cfg = Some p" and "p \<noteq> []"
  shows "auth_header_of cfg =
           Inr (js ''Basic '' @ toString_base64 (Buffer_from (username cfg @ js '':'' @ p)))"
  using assms by (simp add: auth_header_of_def truthy_str_def interpolate_def)

text \<open>
  C1.  Whenever \<open>appPassword\<close> is a non-empty string, whatever \<open>password\<close> holds,
  \<open>getAuthHeader\<close> returns \<open>Basic\<close>, a space, and the base64 encoding of
  \<open>username:appPassword\<close>, and leaves the state as it was.
\<close>

theorem getAuthHeader_uses_appPassword:
  assumes "appPassword (wpConfig w) = Some p" and "p \<noteq> []"
  shows "getAuthHeader w =
           (Inr (js ''Basic '' @ toString_base64
                   (Buffer_from (username (wpConfig w) @ js '':'' @ p))), w)"
  using auth_header_appPassword[OF assms]
  by (simp add: getAuthHeader_def await_def read_config_def ret_def)

lemma bot_header_eq:
  "js ''Basic '' @ toString_base64 (Buffer_from (js ''bot'' @ js '':'' @ js ''abcd 1234''))
     = bot_header"
  unfolding bot_header_def by code_simp

lemma bot_auth_header: "auth_header_of bot_config = Inr bot_header"
  using bot_header_eq
  by (simp add: auth_header_of_def bot_config_def truthy_str_def interpolate_def)

theorem getAuthHeader_uses_appPassword_witness:
  "appPassword (wpConfig bot_world) = Some (js ''abcd 1234'') \<and> js ''abcd 1234'' \<noteq> []
     \<and> password (wpConfig bot_world) = Some (js ''hunter2'')
     \<and> getAuthHeader bot_world = (Inr bot_header, bot_world)"
  using getAuthHeader_uses_appPassword[of bot_world "js ''abcd 1234''"] bot_header_eq
  by (simp add: bot_world_def bot_config_def)

subsection \<open>The merge-categories tool\<close>

text \<open>
  C8.  Called with the same identifier as source and as target, the merge-categories
  tool answers with the error result \<open>Source and target categories cannot be the same\<close>
  (\<open>isError\<close> true) and leaves the state untouched: no request is issued, and the answer
  does not depend on the environment, so \<open>mergeCategories\<close> has not run.
\<close>

theorem merge_tool_rejects_same_category:
  "merge_categories_tool E categoryId categoryId deleteSource w =
     (Inr (JObj [(''content'', JArr [JObj [(''type'', JStr (js ''text'')),
                    (''text'', JStr (js ''Source and target categories cannot be the same''))]]),
                 (''isError'', JBool True)]), w)"
  by (simp add: merge_categories_tool_def tool_error_def) (simp add: ret_def)

subsection \<open>Formatting post content\<close>

lemma starts_with_append: "starts_with (p @ s) p"
  by (induction p) auto

lemma str_includes_prefix: "str_includes (p @ s) p"
  by (cases "p @ s") (auto simp: starts_with_append dest: sym)

lemma join_map_prefix:
  assumes "xs \<noteq> []"
  shows "\<exists>r. join (map (\<lambda>x. p @ f x) xs) sep = p @ r"
proof (cases xs)
  case Nil
  with assms show ?thesis by simp
next
  case (Cons a as)
  then show ?thesis by (cases as) auto
qed

lemma formatPostContent_empty: "formatPostContent [] = []"
  by (simp add: formatPostContent_def js_def split_def trim_def)

text \<open>
  C10.  \<open>formatPostContent\<close> is idempotent: content that already holds one of the three
  tags is returned as it is, and any other content becomes either the empty string,
  which maps to itself, or a string that starts with a paragraph tag.
\<close>

theorem formatPostContent_idempotent:
  "formatPostContent (formatPostContent c) = formatPostContent c"
proof (cases "str_includes c (js ''<p>'') \<or> str_includes c (js ''<h1>'')
                \<or> str_includes c (js ''<div>'')")
  case True
  then show ?thesis by (simp add: formatPostContent_def)
next
  case False
  define ps where
    "ps = filter (\<lambda>paragraph. length paragraph > 0)
            (map (\<lambda>paragraph. trim paragraph) (split c (js [CHR 0x0A, CHR 0x0A])))"
  have out: "formatPostContent c =
               join (map (\<lambda>paragraph. js ''<p>'' @ paragraph @ js ''</p>'') ps) (js [CHR 0x0A])"
    using False unfolding formatPostContent_def ps_def by simp
  show ?thesis
  proof (cases "ps = []")
    case True
    then have "formatPostContent c = []" using out by simp
    then show ?thesis by (simp add: formatPostContent_empty)
  next
    case False
    then obtain r where "formatPostContent c = js ''<p>'' @ r"
      using out join_map_prefix[of ps "js ''<p>''" "\<lambda>x. x @ js ''</p>''"] by auto
    then have "str_includes (formatPostContent c) (js ''<p>'')"
      by (simp add: str_includes_prefix)
    then show ?thesis by (simp add: formatPostContent_def)
  qed
qed

subsection \<open>Operations that leave the configuration alone\<close>

lemma keeps_ret [intro!, simp]: "keeps (ret x)"
  by (simp add: keeps_def ret_def)

lemma keeps_throw [intro!, simp]: "keeps (throw e)"
  by (simp add: keeps_def throw_def)

lemma keeps_lift [intro!, simp]: "keeps (lift r)"
  by (simp add: keeps_def lift_def)

lemma keeps_read_config [intro!, simp]: "keeps read_config"
  by (simp add: keeps_def read_config_def)

lemma keeps_axios [intro!, simp]: "keeps (axios E r)"
  by (simp add: keeps_def axios_def)

lemma keeps_axios_verbs [intro!, simp]:
  "keeps (axios_get E url config)" "keeps (axios_delete E url config)"
  "keeps (axios_post E url body config)" "keeps (axios_put E url body config)"
  by (simp_all add: axios_get_def axios_delete_def axios_post_def axios_put_def)

lemma keeps_await [intro!]:
  assumes "keeps m" and "\<And>x. keeps (f x)"
  shows "keeps (await m f)"
  unfolding keeps_def await_def
proof
  fix w
  show "wpConfig (snd (case m w of (Inl e, w') \<Rightarrow> (Inl e, w') | (Inr x, w') \<Rightarrow> f x w'))
          = wpConfig w"
    using assms(1) assms(2) unfolding keeps_def
    by (cases "m w"; cases "fst (m w)") (auto split: sum.splits, (metis snd_conv)+)
qed

lemma keeps_try_catch [intro!]:
  assumes "keeps m" and "\<And>e. keeps (h e)"
  shows "keeps (try_catch m h)"
  unfolding keeps_def try_catch_def
proof
  fix w
  show "wpConfig (snd (case m w of (Inl e, w') \<Rightarrow> h e w' | (Inr x, w') \<Rightarrow> (Inr x, w')))
          = wpConfig w"
    using assms(1) assms(2) unfolding keeps_def
    by (cases "m w"; cases "fst (m w)") (auto split: sum.splits, (metis snd_conv)+)
qed

lemma keeps_if [intro!]:
  "(b \<Longrightarrow> keeps m) \<Longrightarrow> (\<not> b \<Longrightarrow> keeps n) \<Longrightarrow> keeps (if b then m else n)"
  by simp

lemma keeps_getAuthHeader [intro!, simp]: "keeps getAuthHeader"
  unfolding getAuthHeader_def by auto

lemma keeps_require_session [intro!, simp]: "keeps require_session"
  unfolding require_session_def by auto

lemma keeps_interpolate_json [intro!, simp]: "keeps (interpolate_json v)"
  unfolding interpolate_json_def by auto

lemma keeps_tinify [intro!, simp]: "keeps (tinify_toBuffer E img resize)"
  by (simp add: keeps_def tinify_toBuffer_def)

lemma keeps_merge_posts [intro!, simp]: "keeps (merge_posts E h s t posts n)"
  by (induction posts arbitrary: n) auto

lemma keeps_assign_posts [intro!, simp]: "keeps (assign_posts E h k ids r posts n)"
  by (induction posts arbitrary: n) auto

lemma keeps_deleteCategory [intro!, simp]: "keeps (deleteCategory E categoryId force)"
  unfolding deleteCategory_def by auto

lemma keeps_listUsers [intro!, simp]: "keeps (listUsers E options)"
  unfolding listUsers_def by auto

lemma keeps_updateUser [intro!, simp]: "keeps (updateUser E userId userData)"
  unfolding updateUser_def by auto

lemma keeps_deleteMedia [intro!, simp]: "keeps (deleteMedia E mediaId force)"
  unfolding deleteMedia_def by auto

lemma keeps_delete_each [intro!, simp]: "keeps (delete_each E force ids deleted failed)"
  by (induction ids arbitrary: deleted failed) auto

lemma keeps_getMediaDetails [intro!, simp]: "keeps (getMediaDetails E mediaId)"
  unfolding getMediaDetails_def by auto

lemma keeps_run: "keeps (run E c)"
proof (cases c)
  case (ListTaxonomies type)
  then show ?thesis by (auto simp: listTaxonomies_def split: taxonomy_type.splits)
next
  case (BulkDeleteMedia mediaIds force)
  then show ?thesis by (auto simp: bulkDeleteMedia_def split: prod.splits)
next
  case (OptimizeMedia mediaId options)
  then show ?thesis by (auto simp: optimizeMedia_def split: json.splits)
qed (auto simp: createPost_def getCategories_def getTags_def updatePost_def deletePost_def
       getPost_def listPosts_def createCategory_def createTag_def updateCategory_def
       updateTag_def deleteTag_def mergeCategories_def assignCategoriesToPosts_def
       assignTagsToPosts_def createUser_def disableUser_def resetUserPassword_def
       setUserRole_def listUserRoles_def uploadMedia_def listMedia_def searchMedia_def
       editMediaMetadata_def setFeaturedImage_def)

lemma keeps_testSiteConnection: "keeps (testSiteConnection E url)"
  unfolding testSiteConnection_def by (auto split: json.splits)

subsection \<open>Operable sessions\<close>

lemma and_then_simps [simp]: "and_then (Inr x) f = f x" "and_then (Inl e) f = Inl e"
  by (simp_all add: and_then_def)

lemma require_session_ok: "operable w h \<Longrightarrow> require_session w = (Inr (), w)"
  by (simp add: operable_def require_session_def await_def read_config_def ret_def)

lemma getAuthHeader_ok: "operable w h \<Longrightarrow> getAuthHeader w = (Inr h, w)"
  by (simp add: operable_def getAuthHeader_def await_def read_config_def ret_def)

lemma operable_requests [simp]: "operable (w\<lparr>requests := rs\<rparr>) h = operable w h"
  by (simp add: operable_def)

lemma operable_keeps: "keeps m \<Longrightarrow> operable w h \<Longrightarrow> operable (snd (m w)) h"
  by (simp add: operable_def keeps_def)

lemma deleteCategory_operable:
  assumes "operable w h"
  shows "deleteCategory E categoryId (Some True) w =
    (Inr (case server E (requests w) (category_delete (wpConfig w) h categoryId) of
            Inl e \<Rightarrow> failure e
          | Inr resp \<Rightarrow> (case deleted_of (data resp) of Inl e \<Rightarrow> failure e | Inr v \<Rightarrow> v)),
     w\<lparr>requests := requests w @ [category_delete (wpConfig w) h categoryId]\<rparr>)"
  using assms
  by (simp add: deleteCategory_def await_def try_catch_def require_session_ok getAuthHeader_ok
        read_config_def axios_delete_def axios_def ret_def throw_def lift_def category_delete_def
        force_query_def dflt_def
      split: sum.splits)

lemma deleteMedia_operable:
  assumes "operable w h"
  shows "deleteMedia E mediaId force w =
    (Inr (case server E (requests w) (media_delete (wpConfig w) h (dflt True force) mediaId) of
            Inl e \<Rightarrow> failure e
          | Inr resp \<Rightarrow> JObj [(''success'', JBool True)]),
     w\<lparr>requests := requests w @ [media_delete (wpConfig w) h (dflt True force) mediaId]\<rparr>)"
  using assms
  by (simp add: deleteMedia_def await_def try_catch_def require_session_ok getAuthHeader_ok
        read_config_def axios_delete_def axios_def ret_def throw_def lift_def media_delete_def
      split: sum.splits)

lemma deleteMedia_no_header:
  assumes "siteUrl (wpConfig w) \<noteq> []" "isAuthenticated (wpConfig w)"
    and "auth_header_of (wpConfig w) = Inl e"
  shows "deleteMedia E mediaId force w = (Inr (failure e), w)"
  using assms
  by (simp add: deleteMedia_def await_def try_catch_def require_session_def getAuthHeader_def
        read_config_def ret_def throw_def lift_def)

lemma failure_not_success [simp]: "\<not> truthy (field (failure e) ''success'')"
  by (simp add: failure_def)

lemma delete_each_operable:
  assumes "operable w h"
  shows "delete_each E force ids deleted failed w =
    (Inr (deleted @ map fst (filter snd (zip ids
             (accepted E (requests w) (map (media_delete (wpConfig w) h (dflt True force)) ids)))),
          failed @ map fst (filter (\<lambda>p. \<not> snd p) (zip ids
             (accepted E (requests w) (map (media_delete (wpConfig w) h (dflt True force)) ids))))),
     w\<lparr>requests := requests w @ map (media_delete (wpConfig w) h (dflt True force)) ids\<rparr>)"
  using assms
proof (induction ids arbitrary: w deleted failed)
  case Nil
  then show ?case by (simp add: ret_def)
next
  case (Cons mediaId rest)
  let ?r = "media_delete (wpConfig w) h (dflt True force) mediaId"
  let ?w = "w\<lparr>requests := requests w @ [?r]\<rparr>"
  have op: "operable ?w h" using Cons.prems by simp
  have step: "deleteMedia E mediaId (Some (dflt True force)) w =
    (Inr (case server E (requests w) ?r of
            Inl e \<Rightarrow> failure e
          | Inr resp \<Rightarrow> JObj [(''success'', JBool True)]), ?w)"
    using deleteMedia_operable[OF Cons.prems, of E mediaId "Some (dflt True force)"]
    by (simp add: dflt_def)
  show ?case
  proof (cases "server E (requests w) ?r")
    case (Inl e)
    then show ?thesis
      using step Cons.IH[OF op, of deleted "failed @ [mediaId]"]
      by (simp add: await_def)
  next
    case (Inr resp)
    then show ?thesis
      using step Cons.IH[OF op, of "deleted @ [mediaId]" failed]
      by (simp add: await_def)
  qed
qed

lemma delete_each_no_header:
  assumes "siteUrl (wpConfig w) \<noteq> []" "isAuthenticated (wpConfig w)"
    and "auth_header_of (wpConfig w) = Inl e"
  shows "delete_each E force ids deleted failed w = (Inr (deleted, failed @ ids), w)"
  using assms
proof (induction ids arbitrary: deleted failed)
  case Nil
  then show ?case by (simp add: ret_def)
next
  case (Cons mediaId rest)
  show ?case
    using deleteMedia_no_header[OF Cons.prems, of E mediaId "Some (dflt True force)"]
          Cons.IH[OF Cons.prems, of deleted "failed @ [mediaId]"]
    by (simp add: await_def)
qed

subsection \<open>Bulk deletion of media\<close>

text \<open>
  C7, as amended.  In a configured and authenticated session \<open>bulkDeleteMedia\<close> answers
  \<open>success: true\<close> for every list of identifiers.  When the secrets give a header, one
  delete request per identifier is issued, in order, whatever the earlier ones
  came to; \<open>deleted\<close> holds the identifiers whose request the server accepted and \<open>failed\<close>
  the others.  When they give none, every deletion fails before any request and all
  identifiers are in \<open>failed\<close>.
\<close>

theorem bulkDeleteMedia_partitions:
  assumes "siteUrl (wpConfig w) \<noteq> []" and "isAuthenticated (wpConfig w)"
  shows "(\<forall>h. auth_header_of (wpConfig w) = Inr h \<longrightarrow>
            bulkDeleteMedia E mediaIds force w =
              (Inr (JObj
                 [(''success'', JBool True),
                  (''deleted'', numbers (map fst (filter snd (zip mediaIds
                     (accepted E (requests w)
                        (map (media_delete (wpConfig w) h (dflt True force)) mediaIds)))))),
                  (''failed'', numbers (map fst (filter (\<lambda>p. \<not> snd p) (zip mediaIds
                     (accepted E (requests w)
                        (map (media_delete (wpConfig w) h (dflt True force)) mediaIds))))))]),
               w\<lparr>requests := requests w
                    @ map (media_delete (wpConfig w) h (dflt True force)) mediaIds\<rparr>))
       \<and> (\<forall>e. auth_header_of (wpConfig w) = Inl e \<longrightarrow>
            bulkDeleteMedia E mediaIds force w =
              (Inr (JObj [(''success'', JBool True), (''deleted'', numbers []),
                          (''failed'', numbers mediaIds)]), w))"
proof (intro conjI allI impI)
  fix h
  assume "auth_header_of (wpConfig w) = Inr h"
  with assms have op: "operable w h" by (simp add: operable_def)
  show "bulkDeleteMedia E mediaIds force w =
          (Inr (JObj
             [(''success'', JBool True),
              (''deleted'', numbers (map fst (filter snd (zip mediaIds
                 (accepted E (requests w)
                    (map (media_delete (wpConfig w) h (dflt True force)) mediaIds)))))),
              (''failed'', numbers (map fst (filter (\<lambda>p. \<not> snd p) (zip mediaIds
                 (accepted E (requests w)
                    (map (media_delete (wpConfig w) h (dflt True force)) mediaIds))))))]),
           w\<lparr>requests := requests w
                @ map (media_delete (wpConfig w) h (dflt True force)) mediaIds\<rparr>)"
    using delete_each_operable[OF op, of E force mediaIds "[]" "[]"]
    by (simp add: bulkDeleteMedia_def try_catch_def await_def require_session_ok[OF op] ret_def)
next
  fix e
  assume "auth_header_of (wpConfig w) = Inl e"
  with assms have session: "require_session w = (Inr (), w)"
    by (simp add: require_session_def await_def read_config_def ret_def)
  show "bulkDeleteMedia E mediaIds force w =
          (Inr (JObj [(''success'', JBool True), (''deleted'', numbers []),
                      (''failed'', numbers mediaIds)]), w)"
    using delete_each_no_header[OF assms \<open>auth_header_of (wpConfig w) = Inl e\<close>,
            of E force mediaIds "[]" "[]"]
    by (simp add: bulkDeleteMedia_def try_catch_def await_def session ret_def)
qed

lemma media_delete_distinct:
  "media_delete bot_config bot_header True 1 \<noteq> media_delete bot_config bot_header True 2"
  "media_delete bot_config bot_header True 3 \<noteq> media_delete bot_config bot_header True 2"
  by (simp_all add: media_delete_def number_toString_def decimal.simps digit_char_def js_def)

theorem bulkDeleteMedia_partitions_witness:
  "siteUrl (wpConfig bot_world) \<noteq> [] \<and> isAuthenticated (wpConfig bot_world)
   \<and> auth_header_of (wpConfig bot_world) = Inr bot_header
   \<and> fst (bulkDeleteMedia picky [1, 2, 3] None bot_world) =
       Inr (JObj [(''success'', JBool True), (''deleted'', JArr [JNum 1, JNum 3]),
                  (''failed'', JArr [JNum 2])])
   \<and> requests (snd (bulkDeleteMedia picky [1, 2, 3] None bot_world)) =
       map (media_delete bot_config bot_header True) [1, 2, 3]"
  using bulkDeleteMedia_partitions[of bot_world picky "[1, 2, 3]" None] bot_auth_header
    media_delete_distinct
  by (simp add: bot_world_def dflt_def numbers_def picky_def) (simp add: bot_config_def js_def)

text \<open>
  C7 as stated fails: before the session is configured the same call returns
  \<open>success: false\<close> with every identifier in \<open>failed\<close>, and attempts no deletion.
\<close>

theorem bulkDeleteMedia_unconfigured:
  "siteUrl (wpConfig initial_world) = []
   \<and> bulkDeleteMedia picky [1, 2, 3] None initial_world =
       (Inr (JObj [(''success'', JBool False), (''deleted'', JArr []),
                   (''failed'', JArr [JNum 1, JNum 2, JNum 3]),
                   (''error'', JStr (js ''WordPress site URL not configured''))]),
        initial_world)"
  by (simp add: bulkDeleteMedia_def try_catch_def await_def require_session_def read_config_def
        throw_def ret_def formatErrorResponse_def or_unknown_def numbers_def initial_world_def
        initial_config_def)

subsection \<open>Merging categories\<close>

lemma await_Inr:
  assumes "await m f w = (Inr y, w')"
  obtains x w'' where "m w = (Inr x, w'')" and "f x w'' = (Inr y, w')"
  using assms by (auto simp: await_def split: sum.splits prod.splits)

lemma merge_posts_count:
  "merge_posts E h s t posts c w = (Inr n, w') \<Longrightarrow> n = c + int (length posts)"
proof (induction posts arbitrary: c w)
  case Nil
  then show ?case by (simp add: ret_def)
next
  case (Cons post rest)
  from Cons.prems obtain w'' where "merge_posts E h s t rest (c + 1) w'' = (Inr n, w')"
    by (auto elim!: await_Inr)
  from Cons.IH[OF this] show ?case by simp
qed

lemma try_catch_returns:
  "\<exists>r w'. try_catch m (\<lambda>error. ret (g error)) w = (Inr r, w')"
  by (cases "m w"; cases "fst (m w)") (auto simp: try_catch_def ret_def)

lemma deleteCategory_returns: "\<exists>r w''. deleteCategory E s force w' = (Inr r, w'')"
  unfolding deleteCategory_def by (rule try_catch_returns)

lemma mergeCategories_operable:
  assumes "operable w h"
    and "server E (requests w) (posts_query (wpConfig w) h s) = Inr resp"
    and "iterate (data resp) = Inr posts"
    and "merge_posts E h s t posts 0 (w\<lparr>requests := requests w @ [posts_query (wpConfig w) h s]\<rparr>)
           = (Inr n, w')"
    and "dflt True deleteSource"
  shows "mergeCategories E s t deleteSource w =
           (Inr (JObj [(''success'', JBool True), (''mergedPosts'', JNum n)]),
            snd (deleteCategory E s (Some True) w'))"
  using assms(2-5) deleteCategory_returns[of E s "Some True" w']
  by (auto simp: mergeCategories_def try_catch_def await_def require_session_ok[OF assms(1)]
        getAuthHeader_ok[OF assms(1)] read_config_def axios_get_def axios_def ret_def
        posts_query_def
      split: sum.splits prod.splits)

text \<open>
  C6.  In an operable session, when the server answers the query for the posts of
  source category \<open>s\<close> with an empty list and \<open>deleteSource\<close> is true (given or by
  default), \<open>mergeCategories\<close> returns \<open>{success: true, mergedPosts: 0}\<close>, and the requests
  it has issued are the query and then the forced deletion of category \<open>s\<close>.
\<close>

theorem mergeCategories_empty_source:
  assumes "operable w h"
    and "server E (requests w) (posts_query (wpConfig w) h s) = Inr resp"
    and "data resp = JArr []"
    and "dflt True deleteSource"
  shows "fst (mergeCategories E s t deleteSource w) =
           Inr (JObj [(''success'', JBool True), (''mergedPosts'', JNum 0)])
       \<and> requests (snd (mergeCategories E s t deleteSource w)) =
           requests w @ [posts_query (wpConfig w) h s, category_delete (wpConfig w) h s]"
proof -
  let ?w = "w\<lparr>requests := requests w @ [posts_query (wpConfig w) h s]\<rparr>"
  have "iterate (data resp) = Inr []" using assms(3) by simp
  moreover have "merge_posts E h s t [] 0 ?w = (Inr 0, ?w)" by (simp add: ret_def)
  ultimately have "mergeCategories E s t deleteSource w =
      (Inr (JObj [(''success'', JBool True), (''mergedPosts'', JNum 0)]),
       snd (deleteCategory E s (Some True) ?w))"
    using mergeCategories_operable[OF assms(1,2) _ _ assms(4)] by blast
  moreover have "operable ?w h" using assms(1) by simp
  ultimately show ?thesis
    by (simp add: deleteCategory_operable)
qed

lemma bot_operable: "operable bot_world bot_header"
  using bot_auth_header by (simp add: operable_def bot_world_def) (simp add: bot_config_def js_def)

theorem mergeCategories_empty_source_witness:
  "operable bot_world bot_header
   \<and> server tidy (requests bot_world) (posts_query (wpConfig bot_world) bot_header 4) =
       Inr \<lparr>data = JArr [], headers = []\<rparr>
   \<and> dflt True None
   \<and> fst (mergeCategories tidy 4 9 None bot_world) =
       Inr (JObj [(''success'', JBool True), (''mergedPosts'', JNum 0)])
   \<and> requests (snd (mergeCategories tidy 4 9 None bot_world)) =
       [posts_query bot_config bot_header 4, category_delete bot_config bot_header 4]"
  using mergeCategories_empty_source[of bot_world bot_header tidy 4
          "\<lparr>data = JArr [], headers = []\<rparr>" None 9] bot_operable
  by (simp add: tidy_def dflt_def) (simp add: bot_world_def)

text \<open>
  C9.  When the loop over the posts has gone through and the server then refuses the
  deletion of the source category, \<open>deleteCategory\<close> turns the refusal into a failure
  envelope of its own, and \<open>mergeCategories\<close> still returns \<open>success: true\<close> with the
  number of posts it moved: the refusal does not show in the merge result.
\<close>

theorem mergeCategories_hides_failed_delete:
  assumes "operable w h"
    and "server E (requests w) (posts_query (wpConfig w) h s) = Inr resp"
    and "iterate (data resp) = Inr posts"
    and "merge_posts E h s t posts 0 (w\<lparr>requests := requests w @ [posts_query (wpConfig w) h s]\<rparr>)
           = (Inr n, w')"
    and "dflt True deleteSource"
    and "server E (requests w') (category_delete (wpConfig w) h s) = Inl e"
  shows "deleteCategory E s (Some True) w' =
           (Inr (JObj [(''success'', JBool False), (''error'', formatErrorResponse e)]),
            w'\<lparr>requests := requests w' @ [category_delete (wpConfig w) h s]\<rparr>)
       \<and> mergeCategories E s t deleteSource w =
           (Inr (JObj [(''success'', JBool True), (''mergedPosts'', JNum (int (length posts)))]),
            w'\<lparr>requests := requests w' @ [category_delete (wpConfig w) h s]\<rparr>)"
proof -
  let ?w = "w\<lparr>requests := requests w @ [posts_query (wpConfig w) h s]\<rparr>"
  have "wpConfig w' = wpConfig ?w"
    using keeps_merge_posts[of E h s t posts 0] assms(4) by (auto simp: keeps_def dest: spec[of _ ?w])
  then have cfg: "wpConfig w' = wpConfig w" by simp
  with assms(1) have op: "operable w' h" by (simp add: operable_def)
  have del: "deleteCategory E s (Some True) w' =
           (Inr (failure e), w'\<lparr>requests := requests w' @ [category_delete (wpConfig w) h s]\<rparr>)"
    using deleteCategory_operable[OF op, of E s] assms(6) cfg by simp
  have "n = int (length posts)" using merge_posts_count[OF assms(4)] by simp
  then show ?thesis
    using mergeCategories_operable[OF assms(1-5)] del by (simp add: failure_def)
qed

lemma stubborn_loop:
  "merge_posts stubborn bot_header 4 9 [post11] 0
     (bot_world\<lparr>requests := requests bot_world @ [posts_query (wpConfig bot_world) bot_header 4]\<rparr>)
   = (Inr 1, \<lparr>wpConfig = bot_config,
              requests = [posts_query bot_config bot_header 4, post11_update]\<rparr>)"
  by (simp add: post11_def await_def ret_def read_config_def interpolate_json_def
        number_toString_def decimal.simps digit_char_def axios_put_def axios_def stubborn_def
        bot_world_def post11_update_def)
     (simp add: bot_config_def js_def)

theorem mergeCategories_hides_failed_delete_witness:
  "operable bot_world bot_header
   \<and> server stubborn (requests bot_world) (posts_query (wpConfig bot_world) bot_header 4) =
       Inr \<lparr>data = JArr [post11], headers = []\<rparr>
   \<and> server stubborn [posts_query bot_config bot_header 4, post11_update]
        (category_delete (wpConfig bot_world) bot_header 4) = Inl refusal
   \<and> mergeCategories stubborn 4 9 None bot_world =
       (Inr (JObj [(''success'', JBool True), (''mergedPosts'', JNum 1)]),
        \<lparr>wpConfig = bot_config,
         requests = [posts_query bot_config bot_header 4, post11_update,
                     category_delete bot_config bot_header 4]\<rparr>)"
  using mergeCategories_hides_failed_delete[of bot_world bot_header stubborn 4
          "\<lparr>data = JArr [post11], headers = []\<rparr>" "[post11]" 9 1
          "\<lparr>wpConfig = bot_config,
            requests = [posts_query bot_config bot_header 4, post11_update]\<rparr>" None refusal]
        bot_operable stubborn_loop
  by (simp add: dflt_def) (simp add: stubborn_def posts_query_def category_delete_def bot_world_def)

subsection \<open>The authentication probe\<close>

lemma object_first: "object ((k, Inr v) # rest) = Inr r \<Longrightarrow> field r k = v"
  by (cases "initialisers rest") (auto simp: object_def)

lemma testAuthentication_unfold:
  "testAuthentication E w =
     (case auth_header_of (wpConfig w) of
        Inl e \<Rightarrow> probe_failed e w
      | Inr h \<Rightarrow>
         (case server E (requests w) (probe_request (wpConfig w) h) of
            Inl e \<Rightarrow>
              probe_failed e (w\<lparr>requests := requests w @ [probe_request (wpConfig w) h]\<rparr>)
          | Inr resp \<Rightarrow>
             (case probe_answer (data resp) of
                Inl e \<Rightarrow>
                  probe_failed e (w\<lparr>requests := requests w @ [probe_request (wpConfig w) h]\<rparr>)
              | Inr r \<Rightarrow>
                  (Inr r,
                   mark True (w\<lparr>requests := requests w @ [probe_request (wpConfig w) h]\<rparr>)))))"
  unfolding testAuthentication_def getAuthHeader_def probe_failed_def mark_def probe_answer_def
    probe_request_def
  by (auto simp: await_def try_catch_def read_config_def set_isAuthenticated_def ret_def
        throw_def lift_def axios_get_def axios_def and_then_def Let_def
      split: sum.splits prod.splits)

lemma probe_answer_success: "probe_answer d = Inr r \<Longrightarrow> field r ''success'' = JBool True"
  unfolding probe_answer_def
  by (cases "get_prop d ''roles''") (auto dest: object_first)

lemma probe_answer_object:
  assumes "field (JObj kvs) ''roles'' = JUndefined \<or> (\<exists>xs. field (JObj kvs) ''roles'' = JArr xs)"
  shows "\<exists>r. probe_answer (JObj kvs) = Inr r"
  using assms by (auto simp: probe_answer_def object_def js_or_def)

lemma flag_after_probe:
  "isAuthenticated (wpConfig (snd (testAuthentication E w)))
     = succeeded (fst (testAuthentication E w))"
  unfolding testAuthentication_unfold
  by (auto simp: probe_failed_def mark_def succeeded_def dest: probe_answer_success
      split: sum.splits)

lemma probe_ignores_flag:
  "testAuthentication E (w\<lparr>wpConfig := (wpConfig w)\<lparr>isAuthenticated := b\<rparr>\<rparr>)
     = testAuthentication E w"
  unfolding testAuthentication_unfold
  by (auto simp: probe_failed_def mark_def auth_header_of_def probe_request_def
      split: sum.splits)

lemma probe_answer_readable: "(\<exists>r. probe_answer d = Inr r) \<longleftrightarrow> readable_body d"
proof (cases "d = JUndefined \<or> d = JNull")
  case True
  then show ?thesis by (auto simp: probe_answer_def)
next
  case False
  then have roles: "get_prop d ''roles'' = Inr (field d ''roles'')"
    by (cases d) simp_all
  have other: "get_prop d k = Inr (field d k)" for k
    using False by (cases d) simp_all
  have shape: "readable_body d =
      (case field d ''roles'' of JObj kvs \<Rightarrow> map_of kvs ''toString'' = None | _ \<Rightarrow> True)"
    using False by (cases d) simp_all
  show ?thesis
    unfolding shape probe_answer_def roles
    by (cases "field d ''roles''")
       (auto simp: object_def js_or_def other split: if_splits)
qed

lemma flag_true_iff:
  "isAuthenticated (wpConfig (snd (testAuthentication E w))) \<longleftrightarrow>
     (\<exists>h resp. auth_header_of (wpConfig w) = Inr h
        \<and> server E (requests w) (probe_request (wpConfig w) h) = Inr resp
        \<and> readable_body (data resp))"
proof (cases "auth_header_of (wpConfig w)")
  case (Inl e)
  then show ?thesis by (simp add: testAuthentication_unfold probe_failed_def mark_def)
next
  case (Inr h)
  show ?thesis
  proof (cases "server E (requests w) (probe_request (wpConfig w) h)")
    case (Inl e)
    with Inr show ?thesis by (simp add: testAuthentication_unfold probe_failed_def mark_def)
  next
    case resp: (Inr resp)
    show ?thesis
    proof (cases "probe_answer (data resp)")
      case (Inl e)
      then have "\<not> readable_body (data resp)"
        using probe_answer_readable[of "data resp"] by auto
      with Inr resp Inl show ?thesis
        by (simp add: testAuthentication_unfold probe_failed_def mark_def)
    next
      case r: (Inr r)
      then have "readable_body (data resp)"
        using probe_answer_readable[of "data resp"] by auto
      with Inr resp r show ?thesis
        by (simp add: testAuthentication_unfold mark_def)
    qed
  qed
qed

text \<open>
  C3, as amended.  After \<open>testAuthentication\<close> the flag equals the outcome of the call:
  it is true exactly when the call returns \<open>success: true\<close>, and the call and the state
  it leaves do not depend on the value the flag had before.  The flag is set true
  exactly when a header can be derived, the probe request succeeds and the body of the
  response can be read; it is set false when no header can be derived, when the request
  fails, and when the body cannot be read.
\<close>

theorem testAuthentication_flag_is_outcome:
  "isAuthenticated (wpConfig (snd (testAuthentication E w)))
     = succeeded (fst (testAuthentication E w))
   \<and> testAuthentication E (w\<lparr>wpConfig := (wpConfig w)\<lparr>isAuthenticated := b\<rparr>\<rparr>)
       = testAuthentication E w
   \<and> (\<forall>e. auth_header_of (wpConfig w) = Inl e \<longrightarrow>
          \<not> isAuthenticated (wpConfig (snd (testAuthentication E w))))
   \<and> (\<forall>h e. auth_header_of (wpConfig w) = Inr h
          \<and> server E (requests w) (probe_request (wpConfig w) h) = Inl e \<longrightarrow>
          \<not> isAuthenticated (wpConfig (snd (testAuthentication E w))))
   \<and> (\<forall>h resp kvs. auth_header_of (wpConfig w) = Inr h
          \<and> server E (requests w) (probe_request (wpConfig w) h) = Inr resp
          \<and> data resp = JObj kvs
          \<and> (field (JObj kvs) ''roles'' = JUndefined \<or> (\<exists>xs. field (JObj kvs) ''roles'' = JArr xs))
          \<longrightarrow> isAuthenticated (wpConfig (snd (testAuthentication E w))))
   \<and> (isAuthenticated (wpConfig (snd (testAuthentication E w))) \<longleftrightarrow>
        (\<exists>h resp. auth_header_of (wpConfig w) = Inr h
           \<and> server E (requests w) (probe_request (wpConfig w) h) = Inr resp
           \<and> readable_body (data resp)))"
proof (intro conjI allI impI)
  show "isAuthenticated (wpConfig (snd (testAuthentication E w)))
          = succeeded (fst (testAuthentication E w))"
    by (rule flag_after_probe)
  show "testAuthentication E (w\<lparr>wpConfig := (wpConfig w)\<lparr>isAuthenticated := b\<rparr>\<rparr>)
          = testAuthentication E w"
    by (rule probe_ignores_flag)
  show "isAuthenticated (wpConfig (snd (testAuthentication E w))) \<longleftrightarrow>
          (\<exists>h resp. auth_header_of (wpConfig w) = Inr h
             \<and> server E (requests w) (probe_request (wpConfig w) h) = Inr resp
             \<and> readable_body (data resp))"
    by (rule flag_true_iff)
next
  fix e
  assume "auth_header_of (wpConfig w) = Inl e"
  then show "\<not> isAuthenticated (wpConfig (snd (testAuthentication E w)))"
    by (simp add: testAuthentication_unfold probe_failed_def mark_def)
next
  fix h e
  assume "auth_header_of (wpConfig w) = Inr h
            \<and> server E (requests w) (probe_request (wpConfig w) h) = Inl e"
  then show "\<not> isAuthenticated (wpConfig (snd (testAuthentication E w)))"
    by (simp add: testAuthentication_unfold probe_failed_def mark_def)
next
  fix h resp kvs
  assume a: "auth_header_of (wpConfig w) = Inr h
            \<and> server E (requests w) (probe_request (wpConfig w) h) = Inr resp
            \<and> data resp = JObj kvs
            \<and> (field (JObj kvs) ''roles'' = JUndefined
                 \<or> (\<exists>xs. field (JObj kvs) ''roles'' = JArr xs))"
  then obtain r where "probe_answer (data resp) = Inr r"
    using probe_answer_object[of kvs] by auto
  with a show "isAuthenticated (wpConfig (snd (testAuthentication E w)))"
    by (simp add: testAuthentication_unfold mark_def)
qed

lemma fresh_auth_header: "auth_header_of (wpConfig fresh_world) = Inr bot_header"
  using auth_header_appPassword[of "wpConfig fresh_world" "js ''abcd 1234''"] bot_header_eq
  by (simp add: fresh_world_def bot_config_def)

theorem testAuthentication_flag_is_outcome_witness:
  "isAuthenticated (wpConfig bot_world)
   \<and> auth_header_of (wpConfig bot_world) = Inr bot_header
   \<and> server offline (requests bot_world) (probe_request (wpConfig bot_world) bot_header)
       = Inl (AxiosError (js ''Network Error'') None)
   \<and> \<not> isAuthenticated (wpConfig (snd (testAuthentication offline bot_world)))
   \<and> \<not> succeeded (fst (testAuthentication offline bot_world))
   \<and> \<not> isAuthenticated (wpConfig fresh_world)
   \<and> auth_header_of (wpConfig fresh_world) = Inr bot_header
   \<and> server admin_site (requests fresh_world) (probe_request (wpConfig fresh_world) bot_header)
       = Inr \<lparr>data = admin_record, headers = []\<rparr>
   \<and> isAuthenticated (wpConfig (snd (testAuthentication admin_site fresh_world)))
   \<and> succeeded (fst (testAuthentication admin_site fresh_world))"
proof -
  note down = testAuthentication_flag_is_outcome[of offline bot_world True]
  note up = testAuthentication_flag_is_outcome[of admin_site fresh_world False]
  have flags: "isAuthenticated (wpConfig bot_world)" "\<not> isAuthenticated (wpConfig fresh_world)"
    by (simp_all add: bot_world_def bot_config_def fresh_world_def)
  have headers: "auth_header_of (wpConfig bot_world) = Inr bot_header"
    using bot_auth_header by (simp add: bot_world_def)
  have refused:
    "server offline (requests bot_world) (probe_request (wpConfig bot_world) bot_header)
       = Inl (AxiosError (js ''Network Error'') None)"
    by (simp add: offline_def)
  have answered:
    "server admin_site (requests fresh_world) (probe_request (wpConfig fresh_world) bot_header)
       = Inr \<lparr>data = admin_record, headers = []\<rparr>"
    by (simp add: admin_site_def)
  have shape:
    "data \<lparr>data = admin_record, headers = []\<rparr>
       = JObj [(''id'', JNum 1), (''name'', JStr (js ''bot'')),
               (''roles'', JArr [JStr (js ''administrator'')])]"
    by (simp add: admin_record_def)
  have roles:
    "\<exists>xs. field (JObj [(''id'', JNum 1), (''name'', JStr (js ''bot'')),
                        (''roles'', JArr [JStr (js ''administrator'')])]) ''roles'' = JArr xs"
    by simp
  have off: "\<not> isAuthenticated (wpConfig (snd (testAuthentication offline bot_world)))"
    using down headers refused by blast
  have on: "isAuthenticated (wpConfig (snd (testAuthentication admin_site fresh_world)))"
    using up fresh_auth_header answered shape roles by blast
  have "\<not> succeeded (fst (testAuthentication offline bot_world))"
    using down off by blast
  moreover have "succeeded (fst (testAuthentication admin_site fresh_world))"
    using up on by blast
  ultimately show ?thesis
    using flags headers fresh_auth_header refused answered off on by simp
qed

text \<open>
  C3 as stated fails: the flag is not true whenever the probe request succeeds.  When
  the server answers the request with status 200 and the body \<open>null\<close>, reading \<open>roles\<close>
  throws before the flag is set, and the handler sets the flag false.
\<close>

theorem null_body_leaves_flag_false:
  "isAuthenticated (wpConfig bot_world)
   \<and> auth_header_of (wpConfig bot_world) = Inr bot_header
   \<and> server null_site (requests bot_world) (probe_request (wpConfig bot_world) bot_header)
       = Inr \<lparr>data = JNull, headers = []\<rparr>
   \<and> testAuthentication null_site bot_world =
       (Inr (JObj [(''success'', JBool False),
                   (''error'', JStr (js ''Cannot read properties of null (reading roles)''))]),
        \<lparr>wpConfig = bot_config\<lparr>isAuthenticated := False\<rparr>,
         requests = [probe_request bot_config bot_header]\<rparr>)
   \<and> \<not> isAuthenticated (wpConfig (snd (testAuthentication null_site bot_world)))"
proof -
  have header: "auth_header_of (wpConfig bot_world) = Inr bot_header"
    using bot_auth_header by (simp add: bot_world_def)
  have answer:
    "server null_site (requests bot_world) (probe_request (wpConfig bot_world) bot_header)
       = Inr \<lparr>data = JNull, headers = []\<rparr>"
    by (simp add: null_site_def)
  have run: "testAuthentication null_site bot_world =
       (Inr (JObj [(''success'', JBool False),
                   (''error'', JStr (js ''Cannot read properties of null (reading roles)''))]),
        \<lparr>wpConfig = bot_config\<lparr>isAuthenticated := False\<rparr>,
         requests = [probe_request bot_config bot_header]\<rparr>)"
    by (simp add: testAuthentication_unfold header answer probe_answer_def probe_failed_def
          mark_def js_def)
       (simp add: bot_world_def)
  have "isAuthenticated (wpConfig bot_world)"
    by (simp add: bot_world_def bot_config_def)
  then show ?thesis using header answer run by simp
qed

subsection \<open>The gate in front of every resource operation\<close>

lemma require_session_fails:
  assumes "siteUrl (wpConfig w) = [] \<or> \<not> isAuthenticated (wpConfig w)"
  shows "require_session w =
           (Inl (Error (if siteUrl (wpConfig w) = [] then js ''WordPress site URL not configured''
                        else js ''Not authenticated'')), w)"
  using assms by (auto simp: require_session_def await_def read_config_def throw_def)

lemma guarded_fails:
  assumes "siteUrl (wpConfig w) = [] \<or> \<not> isAuthenticated (wpConfig w)"
  shows "try_catch (await require_session f) h w =
           h (Error (if siteUrl (wpConfig w) = [] then js ''WordPress site URL not configured''
                     else js ''Not authenticated'')) w"
  using require_session_fails[OF assms] by (simp add: try_catch_def await_def)

lemma failure_Error:
  "m \<noteq> [] \<Longrightarrow> failure (Error m) = JObj [(''success'', JBool False), (''error'', JStr m)]"
  by (simp add: failure_def formatErrorResponse_def or_unknown_def)

lemma run_gated:
  assumes "siteUrl (wpConfig w) = [] \<or> \<not> isAuthenticated (wpConfig w)"
    and "\<not> needs_key c"
  shows "\<exists>r. run E c w = (Inr r, w) \<and> field r ''success'' = JBool False
           \<and> field r ''error'' =
               JStr (if siteUrl (wpConfig w) = [] then js ''WordPress site URL not configured''
                     else js ''Not authenticated'')"
  using assms(2)
  by (cases c)
     (simp_all add: createPost_def getCategories_def getTags_def updatePost_def deletePost_def
        getPost_def listPosts_def createCategory_def createTag_def updateCategory_def
        updateTag_def deleteCategory_def deleteTag_def mergeCategories_def
        assignCategoriesToPosts_def assignTagsToPosts_def listTaxonomies_def listUsers_def
        createUser_def updateUser_def disableUser_def resetUserPassword_def setUserRole_def
        listUserRoles_def uploadMedia_def listMedia_def searchMedia_def editMediaMetadata_def
        deleteMedia_def setFeaturedImage_def getMediaDetails_def bulkDeleteMedia_def
        guarded_fails[OF assms(1)] failure_Error formatErrorResponse_def or_unknown_def ret_def)

lemma optimizeMedia_gated:
  assumes "siteUrl (wpConfig w) = [] \<or> \<not> isAuthenticated (wpConfig w)"
  shows "\<exists>r. optimizeMedia E mediaId options w = (Inr r, w) \<and> field r ''success'' = JBool False
           \<and> field r ''error'' =
               JStr (if \<not> truthy_str (TINIFY_API_KEY E) then js ''TinyPNG API key not configured''
                     else if siteUrl (wpConfig w) = [] then js ''WordPress site URL not configured''
                     else js ''Not authenticated'')"
proof (cases "truthy_str (TINIFY_API_KEY E)")
  case True
  then show ?thesis
    by (simp add: optimizeMedia_def guarded_fails[OF assms] failure_Error ret_def)
next
  case False
  then show ?thesis
    by (simp add: optimizeMedia_def failure_Error) (simp add: ret_def)
qed

text \<open>
  C2, as amended.  If the site URL is empty or the session is not authenticated, every
  resource operation returns a \<open>success: false\<close> envelope and leaves the state as it was,
  so it issues no request.  The envelope carries \<open>WordPress site URL not configured\<close>
  when the URL is empty and \<open>Not authenticated\<close> otherwise; only \<open>optimizeMedia\<close> looks
  for its compression key first and, when the key is missing, carries
  \<open>TinyPNG API key not configured\<close> instead.
\<close>

theorem resource_operations_gated:
  assumes "siteUrl (wpConfig w) = [] \<or> \<not> isAuthenticated (wpConfig w)"
  shows "\<exists>r. run E c w = (Inr r, w) \<and> field r ''success'' = JBool False
           \<and> field r ''error'' =
               JStr (if needs_key c \<and> \<not> truthy_str (TINIFY_API_KEY E)
                     then js ''TinyPNG API key not configured''
                     else if siteUrl (wpConfig w) = [] then js ''WordPress site URL not configured''
                     else js ''Not authenticated'')"
proof (cases "needs_key c")
  case True
  then obtain mediaId options where "c = OptimizeMedia mediaId options"
    by (cases c) auto
  then show ?thesis using optimizeMedia_gated[OF assms, of E mediaId options] by simp
next
  case False
  then show ?thesis using run_gated[OF assms False, of E] by simp
qed

theorem resource_operations_gated_witness:
  "siteUrl (wpConfig initial_world) = []
   \<and> run offline hello_post initial_world =
       (Inr (JObj [(''success'', JBool False),
                   (''error'', JStr (js ''WordPress site URL not configured''))]), initial_world)
   \<and> siteUrl (wpConfig fresh_world) \<noteq> [] \<and> \<not> isAuthenticated (wpConfig fresh_world)
   \<and> run offline hello_post fresh_world =
       (Inr (JObj [(''success'', JBool False), (''error'', JStr (js ''Not authenticated''))]),
        fresh_world)"
proof -
  have a: "siteUrl (wpConfig initial_world) = []"
    by (simp add: initial_world_def initial_config_def)
  have b: "siteUrl (wpConfig fresh_world) \<noteq> []" "\<not> isAuthenticated (wpConfig fresh_world)"
    by (simp_all add: fresh_world_def bot_config_def js_def)
  have "run offline hello_post initial_world =
       (Inr (JObj [(''success'', JBool False),
                   (''error'', JStr (js ''WordPress site URL not configured''))]), initial_world)"
    using resource_operations_gated[of initial_world offline hello_post] a
    by (auto simp: hello_post_def createPost_def guarded_fails failure_Error ret_def)
  moreover have "run offline hello_post fresh_world =
       (Inr (JObj [(''success'', JBool False), (''error'', JStr (js ''Not authenticated''))]),
        fresh_world)"
    using resource_operations_gated[of fresh_world offline hello_post] b
    by (auto simp: hello_post_def createPost_def guarded_fails failure_Error ret_def)
  ultimately show ?thesis using a b by simp
qed

text \<open>
  C2 as stated fails for \<open>optimizeMedia\<close>: with no site URL and no compression key the
  envelope carries the message about the key, not the one about the site URL.
\<close>

theorem optimizeMedia_reports_key_first:
  "siteUrl (wpConfig initial_world) = []
   \<and> TINIFY_API_KEY offline = None
   \<and> run offline optimize_1 initial_world =
       (Inr (JObj [(''success'', JBool False),
                   (''error'', JStr (js ''TinyPNG API key not configured''))]), initial_world)
   \<and> js ''TinyPNG API key not configured'' \<noteq> js ''WordPress site URL not configured''"
  by (simp add: optimize_1_def optimizeMedia_def offline_def truthy_str_def failure_Error
        initial_world_def initial_config_def)
     (simp add: ret_def js_def)

subsection \<open>Who changes the flag\<close>

text \<open>
  C4, as amended.  Apart from \<open>testAuthentication\<close>, an exported operation changes the
  flag only if it is \<open>setWordPressConfig\<close> called with a partial configuration that
  carries the \<open>isAuthenticated\<close> key, and then the flag takes the value given.  Every
  other call, \<open>setWordPressConfig\<close> without that key included, leaves the flag as it was.
\<close>

theorem flag_changed_only_by_probe_and_config:
  "(c \<noteq> TestAuthentication
      \<and> (\<forall>config. c = SetWordPressConfig config \<longrightarrow> new_isAuthenticated config = None)
    \<longrightarrow> isAuthenticated (wpConfig (after E c w)) = isAuthenticated (wpConfig w))
   \<and> (\<forall>config v. c = SetWordPressConfig config \<and> new_isAuthenticated config = Some v
        \<longrightarrow> isAuthenticated (wpConfig (after E c w)) = v)"
proof (cases c)
  case (SetWordPressConfig config)
  then show ?thesis by (auto simp: setWordPressConfig_def)
next
  case GetWordPressConfig
  then show ?thesis by (simp add: getWordPressConfig_def)
next
  case GetAuthHeader
  then show ?thesis using keeps_getAuthHeader by (simp add: keeps_def)
next
  case (FormatErrorResponse error)
  then show ?thesis by (simp add: ret_def)
next
  case TestAuthentication
  then show ?thesis by simp
next
  case (TestSiteConnection url)
  then show ?thesis using keeps_testSiteConnection[of E url] by (simp add: keeps_def)
next
  case (Resource rc)
  then show ?thesis using keeps_run[of E rc] by (simp add: keeps_def)
qed

theorem flag_changed_only_by_probe_and_config_witness:
  "new_isAuthenticated move_site = None
   \<and> isAuthenticated (wpConfig (after offline (SetWordPressConfig move_site) bot_world))
       = isAuthenticated (wpConfig bot_world)
   \<and> isAuthenticated (wpConfig (after picky (Resource (BulkDeleteMedia [1, 2, 3] None)) bot_world))
       = isAuthenticated (wpConfig bot_world)
   \<and> new_isAuthenticated claim_authenticated = Some True
   \<and> isAuthenticated (wpConfig (after offline (SetWordPressConfig claim_authenticated)
        initial_world))"
  using flag_changed_only_by_probe_and_config[of "SetWordPressConfig move_site" offline bot_world]
        flag_changed_only_by_probe_and_config[of "Resource (BulkDeleteMedia [1, 2, 3] None)"
          picky bot_world]
        flag_changed_only_by_probe_and_config[of "SetWordPressConfig claim_authenticated" offline
          initial_world]
  by (auto simp: move_site_def claim_authenticated_def)

text \<open>
  C4 as stated fails: \<open>setWordPressConfig({isAuthenticated: true})\<close> on the initial
  session sets the flag.
\<close>

theorem setWordPressConfig_can_set_flag:
  "\<not> isAuthenticated (wpConfig initial_world)
   \<and> isAuthenticated (wpConfig (after offline (SetWordPressConfig claim_authenticated)
        initial_world))"
  by (simp add: setWordPressConfig_def claim_authenticated_def initial_world_def
        initial_config_def)

subsection \<open>Resetting a password\<close>

lemma short_draw_has_dot:
  assumes "ds \<noteq> []" and "length ds < 12"
  shows "0x2E \<in> set (slice_last 12 (random_toString36 ds))"
proof -
  have shape: "random_toString36 ds = 0x30 # 0x2E # map digit36 ds"
    using assms(1) by (simp add: random_toString36_def js_def)
  have "length (random_toString36 ds) - 12 = 0 \<or> length (random_toString36 ds) - 12 = 1"
    using assms(2) unfolding shape by auto
  then show ?thesis
    unfolding slice_last_def shape by auto
qed

text \<open>
  C5 does not hold of the code.  When \<open>Math.random()\<close> returns 0.5 the new password is
  the three characters \<open>0.i\<close>, one of them a full stop, and that is what the response
  hands back.
\<close>

theorem resetUserPassword_short_password:
  "slice_last 12 (random_toString36 (Math_random half_draw)) = js ''0.i''
   \<and> fst (resetUserPassword half_draw reset_user7 bot_world) =
       Inr (JObj [(''success'', JBool True),
                  (''message'', JStr (js ''Password reset for user 7. New password generated.'')),
                  (''resetLink'', JStr (js ''Temporary password: 0.i''))])"
  by code_simp

end
